theory Spec2Isabelle
  imports Complex_Main
begin

section \<open>Conventions of the embedding\<close>

text \<open>
  The repository is written in Go. The embedding follows these conventions throughout.

  \<^item> A Go \<^verbatim>\<open>float64\<close> is a \<^typ>\<open>real\<close>: sums, products, quotients and comparisons are the
    exact ones, rounding and NaN are not modelled.
  \<^item> A Go \<^verbatim>\<open>map[K]V\<close> that the code ranges over is an association list with distinct
    keys. The order of the list is the order in which \<^verbatim>\<open>range\<close> visits the keys in the
    run at hand: Go leaves that order unspecified, so a property of the program has to
    hold for every order of the list. A lookup is \<^const>\<open>map_of\<close>. A map that the code
    builds and then ranges over is visited in the order in which its keys were added,
    one of the orders Go may choose; the general theorems speak of membership and of
    the sorted result and do not depend on that order.
  \<^item> A reference to a mutable \<^verbatim>\<open>map[string]interface{}\<close> is an address into an explicit
    heap, so that two records sharing one map are told apart from two records holding
    equal maps; \<^verbatim>\<open>nil\<close> is \<^const>\<open>None\<close>. An address is an index into the heap; the
    states considered hold addresses below the length of the heap.
  \<^item> A run-time panic is the left injection of a sum type.
  \<^item> Locks and log entries are left out: every function is modelled as one call that runs
    alone.
\<close>

section \<open>Recall results and their merge (datasource package)\<close>

text \<open>The dynamic value of an \<^verbatim>\<open>interface{}\<close>: a \<^verbatim>\<open>[]string\<close>, or a value of any other type
  (kept by a printed form). A key that is absent reads as the nil interface.\<close>

datatype iface = StringSlice "string list" | OtherValue string

type_synonym metamap = "(string \<times> iface) list"

type_synonym heap = "metamap list"

record ItemRecord =
  ItemID :: string
  Category :: string
  Title :: string
  Description :: string
  Metadata :: "nat option"
  Popularity :: real

record RecallResult =
  Items :: "ItemRecord list"
  Score :: real
  Source :: string

datatype panic = TypeAssertionPanic | SliceBoundsPanic

text \<open>\<^verbatim>\<open>m[k] = v\<close> on a Go map: an existing key keeps its place, a new key is added.\<close>

fun put :: "'k \<Rightarrow> 'v \<Rightarrow> ('k \<times> 'v) list \<Rightarrow> ('k \<times> 'v) list" where
  "put k v [] = [(k, v)]"
| "put k v ((k', v') # m) = (if k = k' then (k, v) # m else (k', v') # put k v m)"

text \<open>\<^verbatim>\<open>make(map[string]interface{})\<close>: a fresh, empty map at a new address.\<close>

definition alloc :: "heap \<Rightarrow> heap \<times> nat" where
  "alloc h = (h @ [[]], length h)"

text \<open>\<^verbatim>\<open>if item.Metadata == nil { item.Metadata = make(...) }\<close> on the loop's copy of the item.\<close>

definition ensure_metadata :: "heap \<Rightarrow> ItemRecord \<Rightarrow> heap \<times> nat" where
  "ensure_metadata h item = (case Metadata item of None \<Rightarrow> alloc h | Some a \<Rightarrow> (h, a))"

text \<open>
  The body of the inner loop of \<^verbatim>\<open>MergeResults\<close> (multi.go, lines 73-92) for one item of
  the source \<open>source\<close> whose recall result has the score \<open>score\<close>.

  In the collision branch the code updates \<^verbatim>\<open>item\<close>, the loop's copy of the incoming
  record: the new popularity is written to the copy, the type assertion
  \<^verbatim>\<open>item.Metadata["sources"].([]string)\<close> reads the map of the incoming record, the
  appended slice is stored into that map, and \<^verbatim>\<open>itemMap\<close> is not assigned. The single-value
  type assertion panics when the key is absent (nil interface) or holds another type.
\<close>

definition merge_item ::
  "string \<Rightarrow> real \<Rightarrow> heap \<times> (string \<times> ItemRecord) list \<Rightarrow> ItemRecord
    \<Rightarrow> panic + heap \<times> (string \<times> ItemRecord) list" where
  "merge_item source score st item =
     (let h = fst st; itemMap = snd st in
      case map_of itemMap (ItemID item) of
        Some existing \<Rightarrow>
          (let item1 = (if score > Popularity existing then item\<lparr>Popularity := score\<rparr> else item);
               ha = ensure_metadata h item1;
               h1 = fst ha; a = snd ha
           in case map_of (h1 ! a) ''sources'' of
                Some (StringSlice ss) \<Rightarrow>
                  Inr (h1[a := put ''sources'' (StringSlice (ss @ [source])) (h1 ! a)], itemMap)
              | _ \<Rightarrow> Inl TypeAssertionPanic)
      | None \<Rightarrow>
          (let item1 = item\<lparr>Popularity := score\<rparr>;
               ha = ensure_metadata h item1;
               h1 = fst ha; a = snd ha;
               item2 = item1\<lparr>Metadata := Some a\<rparr>;
               h2 = h1[a := put ''sources'' (StringSlice [source]) (h1 ! a)]
           in Inr (h2, put (ItemID item) item2 itemMap)))"

text \<open>The inner loop \<^verbatim>\<open>for _, item := range result.Items\<close>; a panic ends the run.\<close>

fun merge_items ::
  "string \<Rightarrow> real \<Rightarrow> heap \<times> (string \<times> ItemRecord) list \<Rightarrow> ItemRecord list
    \<Rightarrow> panic + heap \<times> (string \<times> ItemRecord) list" where
  "merge_items source score st [] = Inr st"
| "merge_items source score st (item # items) =
     (case merge_item source score st item of
        Inl p \<Rightarrow> Inl p
      | Inr st' \<Rightarrow> merge_items source score st' items)"

text \<open>The outer loop \<^verbatim>\<open>for source, result := range m.results\<close>, in the order of the list.\<close>

fun merge_sources ::
  "heap \<times> (string \<times> ItemRecord) list \<Rightarrow> (string \<times> RecallResult) list
    \<Rightarrow> panic + heap \<times> (string \<times> ItemRecord) list" where
  "merge_sources st [] = Inr st"
| "merge_sources st ((source, result) # rest) =
     (case merge_items source (Score result) st (Items result) of
        Inl p \<Rightarrow> Inl p
      | Inr st' \<Rightarrow> merge_sources st' rest)"

text \<open>\<^verbatim>\<open>MergeResults\<close>: the final heap and the values of \<^verbatim>\<open>itemMap\<close> as a slice.\<close>

definition MergeResults :: "heap \<Rightarrow> (string \<times> RecallResult) list \<Rightarrow> panic + heap \<times> ItemRecord list" where
  "MergeResults h results =
     (case merge_sources (h, []) results of
        Inl p \<Rightarrow> Inl p
      | Inr st \<Rightarrow> Inr (fst st, map snd (snd st)))"

text \<open>The provenance list of a merged record, read from the final heap.\<close>

definition sources_of :: "heap \<Rightarrow> ItemRecord \<Rightarrow> iface option" where
  "sources_of h item = (case Metadata item of None \<Rightarrow> None | Some a \<Rightarrow> map_of (h ! a) ''sources'')"

definition mk_item :: "string \<Rightarrow> nat option \<Rightarrow> ItemRecord" where
  "mk_item i md = \<lparr>ItemID = i, Category = ''technology'', Title = '''', Description = '''',
     Metadata = md, Popularity = 0\<rparr>"

definition mk_result :: "ItemRecord list \<Rightarrow> real \<Rightarrow> string \<Rightarrow> RecallResult" where
  "mk_result its sc src = \<lparr>Items = its, Score = sc, Source = src\<rparr>"


section \<open>Health check and close of the multi data source\<close>

text \<open>
  A data source, as far as \<^verbatim>\<open>HealthCheck\<close> and \<^verbatim>\<open>Close\<close> of \<^verbatim>\<open>MultiDataSource\<close> observe it:
  its name and the error (\<^const>\<open>None\<close> for \<^verbatim>\<open>nil\<close>) that each of the two calls returns.
  \<^verbatim>\<open>HealthCheckFailed n e\<close> stands for the error that \<^verbatim>\<open>fmt.Errorf\<close> builds around \<open>e\<close> with
  the source name \<open>n\<close> (multi.go, line 395).
\<close>

datatype error = SourceError string | HealthCheckFailed string error

record DataSource =
  GetName :: string
  HealthCheckResult :: "error option"
  CloseResult :: "error option"

text \<open>Both functions return the names of the sources they called, in call order, and the
  error they return.\<close>

fun HealthCheck :: "DataSource list \<Rightarrow> string list \<times> error option" where
  "HealthCheck [] = ([], None)"
| "HealthCheck (source # sources) =
     (case HealthCheckResult source of
        Some err \<Rightarrow> ([GetName source], Some (HealthCheckFailed (GetName source) err))
      | None \<Rightarrow> (let r = HealthCheck sources in (GetName source # fst r, snd r)))"

fun Close_loop :: "error option \<Rightarrow> DataSource list \<Rightarrow> string list \<times> error option" where
  "Close_loop lastErr [] = ([], lastErr)"
| "Close_loop lastErr (source # sources) =
     (let lastErr' = (case CloseResult source of Some err \<Rightarrow> Some err | None \<Rightarrow> lastErr);
          r = Close_loop lastErr' sources
      in (GetName source # fst r, snd r))"

definition Close :: "DataSource list \<Rightarrow> string list \<times> error option" where
  "Close sources = Close_loop None sources"

definition healthy :: "DataSource \<Rightarrow> bool" where
  "healthy source = (HealthCheckResult source = None)"

definition close_failed :: "DataSource \<Rightarrow> bool" where
  "close_failed source = (CloseResult source \<noteq> None)"

definition mk_source :: "string \<Rightarrow> error option \<Rightarrow> error option \<Rightarrow> DataSource" where
  "mk_source n h c = \<lparr>GetName = n, HealthCheckResult = h, CloseResult = c\<rparr>"

section \<open>Slices and sorting\<close>

text \<open>
  \<^verbatim>\<open>if len(xs) > n { xs = xs[:n] }\<close>: the slice expression panics at run time when \<open>n\<close> is
  negative.
\<close>

definition truncate_to :: "int \<Rightarrow> 'a list \<Rightarrow> panic + 'a list" where
  "truncate_to n xs =
     (if int (length xs) > n
      then (if n < 0 then Inl SliceBoundsPanic else Inr (take (nat n) xs))
      else Inr xs)"

text \<open>
  \<^verbatim>\<open>sort.Slice(xs, lt)\<close>. On a short slice (at most 6 elements in every Go release, at most
  12 since Go 1.19) the library runs the insertion sort below: element \<open>i\<close> moves left
  while \<^verbatim>\<open>lt(data[j], data[j-1])\<close>. \<^term>\<open>insert_left lt x p\<close> takes the sorted prefix \<open>p\<close>
  reversed, nearest neighbour first. On a longer slice the library returns another
  permutation ordered by \<open>lt\<close>; equal elements may then come out in any order.
\<close>

fun insert_left :: "('a \<Rightarrow> 'a \<Rightarrow> bool) \<Rightarrow> 'a \<Rightarrow> 'a list \<Rightarrow> 'a list" where
  "insert_left lt x [] = [x]"
| "insert_left lt x (y # p) = (if lt x y then y # insert_left lt x p else x # y # p)"

definition sort_Slice :: "('a \<Rightarrow> 'a \<Rightarrow> bool) \<Rightarrow> 'a list \<Rightarrow> 'a list" where
  "sort_Slice lt xs = rev (foldl (\<lambda>p x. insert_left lt x p) [] xs)"

section \<open>Collaborative filtering (algorithms package)\<close>

type_synonym ratings = "(string \<times> real) list"

type_synonym matrix = "(string \<times> ratings) list"

record CollaborativeFilteringConfig =
  SimilarityThreshold :: real
  MaxNeighbors :: int
  MinCommonItems :: int
  NormalizationMethod :: string

text \<open>
  The engine. Its two similarity caches are left out: \<^verbatim>\<open>userSimilarity\<close> is never written,
  and \<^verbatim>\<open>itemSimilarity\<close> is written by \<^verbatim>\<open>buildItemSimilarityMatrix\<close> and read nowhere but in
  the test \<^verbatim>\<open>len(c.itemSimilarity) == 0\<close> that triggers the build, so no result depends
  on either.
\<close>

record CollaborativeFilteringEngine =
  userItemMatrix :: matrix
  itemUserMatrix :: matrix
  cf_config :: CollaborativeFilteringConfig

record Recommendation =
  ItemID_rec :: string
  Score_rec :: real

definition NewCollaborativeFilteringEngine :: CollaborativeFilteringEngine where
  "NewCollaborativeFilteringEngine =
     \<lparr>userItemMatrix = [], itemUserMatrix = [],
      cf_config = \<lparr>SimilarityThreshold = 0.1, MaxNeighbors = 50, MinCommonItems = 2,
                   NormalizationMethod = ''mean_centering''\<rparr>\<rparr>"

text \<open>\<^verbatim>\<open>_, exists := m[k]\<close> and \<^verbatim>\<open>m[k]\<close> on a map of \<^verbatim>\<open>float64\<close> (zero when absent).\<close>

definition has_key :: "('k \<times> 'v) list \<Rightarrow> 'k \<Rightarrow> bool" where
  "has_key m k = (map_of m k \<noteq> None)"

definition lookup0 :: "('k \<times> real) list \<Rightarrow> 'k \<Rightarrow> real" where
  "lookup0 m k = (case map_of m k of None \<Rightarrow> 0 | Some v \<Rightarrow> v)"

text \<open>The inner map of a matrix row; a missing row reads as the nil map, which is empty.\<close>

definition row :: "('k \<times> ('j \<times> 'v) list) list \<Rightarrow> 'k \<Rightarrow> ('j \<times> 'v) list" where
  "row m k = (case map_of m k of None \<Rightarrow> [] | Some r \<Rightarrow> r)"

definition AddUserRating ::
  "CollaborativeFilteringEngine \<Rightarrow> string \<Rightarrow> string \<Rightarrow> real \<Rightarrow> CollaborativeFilteringEngine" where
  "AddUserRating c userID itemID rating =
     c\<lparr>userItemMatrix := put userID (put itemID rating (row (userItemMatrix c) userID)) (userItemMatrix c),
       itemUserMatrix := put itemID (put userID rating (row (itemUserMatrix c) itemID)) (itemUserMatrix c)\<rparr>"

text \<open>The loop that collects the keys of \<open>ratings1\<close> that \<open>ratings2\<close> has too.\<close>

definition common_keys :: "ratings \<Rightarrow> ratings \<Rightarrow> string list" where
  "common_keys ratings1 ratings2 = filter (has_key ratings2) (map fst ratings1)"

text \<open>\<^verbatim>\<open>pearsonCorrelation\<close>. The constructor sets \<^verbatim>\<open>MaxNeighbors\<close> to 50 and nothing changes it; a
  division by a \<^verbatim>\<open>MaxNeighbors\<close> of 0 would give an infinity or NaN in Go and gives 0 here.\<close>

definition pearsonCorrelation ::
  "CollaborativeFilteringConfig \<Rightarrow> ratings \<Rightarrow> ratings \<Rightarrow> string list \<Rightarrow> real" where
  "pearsonCorrelation cfg ratings1 ratings2 commonItems =
     (if length commonItems = 0 then 0
      else
        let sum1 = sum_list (map (lookup0 ratings1) commonItems);
            sum2 = sum_list (map (lookup0 ratings2) commonItems);
            mean1 = sum1 / real (length commonItems);
            mean2 = sum2 / real (length commonItems);
            numerator = sum_list (map (\<lambda>itemID.
              (lookup0 ratings1 itemID - mean1) * (lookup0 ratings2 itemID - mean2)) commonItems);
            denominator1 = sum_list (map (\<lambda>itemID.
              (lookup0 ratings1 itemID - mean1) * (lookup0 ratings1 itemID - mean1)) commonItems);
            denominator2 = sum_list (map (\<lambda>itemID.
              (lookup0 ratings2 itemID - mean2) * (lookup0 ratings2 itemID - mean2)) commonItems)
        in if denominator1 = 0 \<or> denominator2 = 0 then 0
           else
             let correlation = numerator / sqrt (denominator1 * denominator2);
                 weight = real (length commonItems) / real_of_int (MaxNeighbors cfg)
             in correlation * weight)"

definition CalculateUserSimilarity :: "CollaborativeFilteringEngine \<Rightarrow> string \<Rightarrow> string \<Rightarrow> real" where
  "CalculateUserSimilarity c userID1 userID2 =
     (case map_of (userItemMatrix c) userID1 of
        None \<Rightarrow> 0
      | Some ratings1 \<Rightarrow>
          (case map_of (userItemMatrix c) userID2 of
             None \<Rightarrow> 0
           | Some ratings2 \<Rightarrow>
               (let commonItems = common_keys ratings1 ratings2
                in if int (length commonItems) < MinCommonItems (cf_config c) then 0
                   else pearsonCorrelation (cf_config c) ratings1 ratings2 commonItems)))"

definition cosineSimilarity :: "ratings \<Rightarrow> ratings \<Rightarrow> real" where
  "cosineSimilarity ratings1 ratings2 =
     (let commonUsers = common_keys ratings1 ratings2
      in if length commonUsers = 0 then 0
         else
           let dotProduct = sum_list (map (\<lambda>userID.
                 lookup0 ratings1 userID * lookup0 ratings2 userID) commonUsers);
               norm1 = sum_list (map (\<lambda>userID.
                 lookup0 ratings1 userID * lookup0 ratings1 userID) commonUsers);
               norm2 = sum_list (map (\<lambda>userID.
                 lookup0 ratings2 userID * lookup0 ratings2 userID) commonUsers)
           in if norm1 = 0 \<or> norm2 = 0 then 0
              else dotProduct / sqrt (norm1 * norm2))"

definition CalculateItemSimilarity :: "CollaborativeFilteringEngine \<Rightarrow> string \<Rightarrow> string \<Rightarrow> real" where
  "CalculateItemSimilarity c itemID1 itemID2 =
     (case map_of (itemUserMatrix c) itemID1 of
        None \<Rightarrow> 0
      | Some ratings1 \<Rightarrow>
          (case map_of (itemUserMatrix c) itemID2 of
             None \<Rightarrow> 0
           | Some ratings2 \<Rightarrow> cosineSimilarity ratings1 ratings2))"

text \<open>
  \<^verbatim>\<open>findSimilarUsers\<close> and \<^verbatim>\<open>findSimilarItems\<close>: the candidates in the order in which the
  matrix is ranged over, sorted by similarity, cut to \<^verbatim>\<open>MaxNeighbors\<close>. A neighbour is the
  pair of its identifier and its similarity.
\<close>

definition similar_candidates ::
  "(string \<Rightarrow> real) \<Rightarrow> real \<Rightarrow> string \<Rightarrow> string list \<Rightarrow> (string \<times> real) list" where
  "similar_candidates sim threshold self others =
     concat (map (\<lambda>other.
       if other = self then []
       else if sim other \<ge> threshold then [(other, sim other)] else []) others)"

definition findSimilarUsers ::
  "CollaborativeFilteringEngine \<Rightarrow> string \<Rightarrow> panic + (string \<times> real) list" where
  "findSimilarUsers c userID =
     truncate_to (MaxNeighbors (cf_config c))
       (sort_Slice (\<lambda>a b. snd a > snd b)
         (similar_candidates (CalculateUserSimilarity c userID)
            (SimilarityThreshold (cf_config c)) userID (map fst (userItemMatrix c))))"

definition findSimilarItems ::
  "CollaborativeFilteringEngine \<Rightarrow> string \<Rightarrow> panic + (string \<times> real) list" where
  "findSimilarItems c itemID =
     truncate_to (MaxNeighbors (cf_config c))
       (sort_Slice (\<lambda>a b. snd a > snd b)
         (similar_candidates (CalculateItemSimilarity c itemID)
            (SimilarityThreshold (cf_config c)) itemID (map fst (itemUserMatrix c))))"

text \<open>
  The accumulation \<^verbatim>\<open>recommendations[itemID] += weight * rating\<close> over one list of
  (item, rating) pairs, skipping the items the user has rated. The map
  \<^verbatim>\<open>recommendations\<close> is built by the code; it is ranged over in the order in which its
  keys were added, one of the orders Go may choose.
\<close>

definition accumulate :: "ratings \<Rightarrow> real \<Rightarrow> ratings \<Rightarrow> (string \<times> real) list \<Rightarrow> ratings" where
  "accumulate userRatings weight recommendations pairs =
     foldl (\<lambda>acc (itemID, rating).
        if has_key userRatings itemID then acc
        else put itemID (lookup0 acc itemID + weight * rating) acc) recommendations pairs"

text \<open>The tail shared by both recommenders: to a slice, sorted by score, cut to \<open>topN\<close>.\<close>

definition ranked :: "ratings \<Rightarrow> int \<Rightarrow> panic + Recommendation list" where
  "ranked recommendations topN =
     truncate_to topN
       (sort_Slice (\<lambda>a b. Score_rec a > Score_rec b)
         (map (\<lambda>(itemID, score). \<lparr>ItemID_rec = itemID, Score_rec = score\<rparr>) recommendations))"

definition UserBasedRecommend ::
  "CollaborativeFilteringEngine \<Rightarrow> string \<Rightarrow> int \<Rightarrow> panic + Recommendation list" where
  "UserBasedRecommend c userID topN =
     (case map_of (userItemMatrix c) userID of
        None \<Rightarrow> Inr []
      | Some userRatings \<Rightarrow>
          (case findSimilarUsers c userID of
             Inl p \<Rightarrow> Inl p
           | Inr similarUsers \<Rightarrow>
               ranked
                 (foldl (\<lambda>acc (similarUser, similarity).
                    accumulate userRatings similarity acc (row (userItemMatrix c) similarUser))
                  [] similarUsers)
                 topN))"

text \<open>The outer loop of \<^verbatim>\<open>ItemBasedRecommend\<close> over the ratings of the user: here the
  weight of a contribution is the user's rating and the pairs are (item, similarity).\<close>

fun item_based_loop ::
  "CollaborativeFilteringEngine \<Rightarrow> ratings \<Rightarrow> ratings \<Rightarrow> ratings \<Rightarrow> panic + ratings" where
  "item_based_loop c userRatings acc [] = Inr acc"
| "item_based_loop c userRatings acc ((userItemID, userRating) # rest) =
     (case findSimilarItems c userItemID of
        Inl p \<Rightarrow> Inl p
      | Inr similarItems \<Rightarrow>
          item_based_loop c userRatings (accumulate userRatings userRating acc similarItems) rest)"

definition ItemBasedRecommend ::
  "CollaborativeFilteringEngine \<Rightarrow> string \<Rightarrow> int \<Rightarrow> panic + Recommendation list" where
  "ItemBasedRecommend c userID topN =
     (case map_of (userItemMatrix c) userID of
        None \<Rightarrow> Inr []
      | Some userRatings \<Rightarrow>
          (case item_based_loop c userRatings [] userRatings of
             Inl p \<Rightarrow> Inl p
           | Inr recommendations \<Rightarrow> ranked recommendations topN))"

section \<open>Content-based filtering (algorithms package)\<close>

record ContentBasedFilteringConfig =
  FeatureWeightThreshold :: real
  MaxFeatures :: int
  SimilarityThreshold_cb :: real
  LearningRate :: real
  DecayFactor :: real

record UserProfile =
  UserID :: string
  FeatureVector :: "(string \<times> real) list"
  Preferences :: "(string \<times> real) list"
  UpdateTime :: int

text \<open>The \<^verbatim>\<open>Metadata\<close> map of \<^verbatim>\<open>ItemFeatures\<close> is created empty and never read; it is left out.\<close>

record ItemFeatures =
  ItemID_feat :: string
  Category_feat :: string
  Keywords :: "string list"
  Features :: "(string \<times> real) list"

record ContentBasedFilteringEngine =
  userProfiles :: "(string \<times> UserProfile) list"
  itemFeatures :: "(string \<times> ItemFeatures) list"
  userItemHistory :: matrix
  cb_config :: ContentBasedFilteringConfig

definition NewContentBasedFilteringEngine :: ContentBasedFilteringEngine where
  "NewContentBasedFilteringEngine =
     \<lparr>userProfiles = [], itemFeatures = [], userItemHistory = [],
      cb_config = \<lparr>FeatureWeightThreshold = 0.1, MaxFeatures = 100, SimilarityThreshold_cb = 0.3,
                   LearningRate = 0.01, DecayFactor = 0.95\<rparr>\<rparr>"

definition AddItemFeatures ::
  "ContentBasedFilteringEngine \<Rightarrow> string \<Rightarrow> string \<Rightarrow> string list \<Rightarrow> (string \<times> real) list
    \<Rightarrow> ContentBasedFilteringEngine" where
  "AddItemFeatures c itemID category keywords features =
     c\<lparr>itemFeatures := put itemID
         \<lparr>ItemID_feat = itemID, Category_feat = category, Keywords = keywords, Features = features\<rparr>
         (itemFeatures c)\<rparr>"

text \<open>\<^verbatim>\<open>applyFeatureDecay\<close>; \<open>currentTime\<close> is the value of \<^verbatim>\<open>getCurrentTimestamp()\<close>, in seconds.
  \<^verbatim>\<open>math.Pow\<close> is \<^const>\<open>powr\<close>, which agrees with it for a positive decay factor.\<close>

definition applyFeatureDecay :: "ContentBasedFilteringConfig \<Rightarrow> int \<Rightarrow> UserProfile \<Rightarrow> UserProfile" where
  "applyFeatureDecay cfg currentTime profile =
     (let timeDiff = currentTime - UpdateTime profile
      in if timeDiff > 0
         then
           let decayFactor = DecayFactor cfg powr (real_of_int timeDiff / 86400)
           in profile\<lparr>FeatureVector := map (\<lambda>(feature, value). (feature, value * decayFactor))
                                         (FeatureVector profile),
                      Preferences := map (\<lambda>(preference, weight). (preference, weight * decayFactor))
                                       (Preferences profile)\<rparr>
         else profile)"

text \<open>\<^verbatim>\<open>updateUserProfile\<close>; the clock is read once for the decay (\<open>t1\<close>) and once for the new
  \<^verbatim>\<open>UpdateTime\<close> (\<open>t2\<close>).\<close>

definition updateUserProfile ::
  "ContentBasedFilteringEngine \<Rightarrow> int \<Rightarrow> int \<Rightarrow> string \<Rightarrow> ItemFeatures \<Rightarrow> real
    \<Rightarrow> ContentBasedFilteringEngine" where
  "updateUserProfile c t1 t2 userID item rating =
     (let profile0 = (case map_of (userProfiles c) userID of
                        Some profile \<Rightarrow> profile
                      | None \<Rightarrow> \<lparr>UserID = userID, FeatureVector = [], Preferences = [], UpdateTime = 0\<rparr>);
          profile1 = applyFeatureDecay (cb_config c) t1 profile0;
          fv = foldl (\<lambda>m (feature, value).
                  put feature (lookup0 m feature + LearningRate (cb_config c) * rating * value) m)
                (FeatureVector profile1) (Features item);
          prefs1 = foldl (\<lambda>m keyword.
                  put keyword (lookup0 m keyword + LearningRate (cb_config c) * rating) m)
                (Preferences profile1) (Keywords item);
          prefs2 = put (Category_feat item)
                     (lookup0 prefs1 (Category_feat item) + LearningRate (cb_config c) * rating) prefs1
      in c\<lparr>userProfiles := put userID
             (profile1\<lparr>FeatureVector := fv, Preferences := prefs2, UpdateTime := t2\<rparr>)
             (userProfiles c)\<rparr>)"

definition AddUserBehavior ::
  "ContentBasedFilteringEngine \<Rightarrow> int \<Rightarrow> int \<Rightarrow> string \<Rightarrow> string \<Rightarrow> real
    \<Rightarrow> ContentBasedFilteringEngine" where
  "AddUserBehavior c t1 t2 userID itemID rating =
     (let c1 = c\<lparr>userItemHistory :=
                  put userID (put itemID rating (row (userItemHistory c) userID)) (userItemHistory c)\<rparr>
      in case map_of (itemFeatures c1) itemID of
           None \<Rightarrow> c1
         | Some item \<Rightarrow> updateUserProfile c1 t1 t2 userID item rating)"

definition UpdateUserPreference ::
  "ContentBasedFilteringEngine \<Rightarrow> int \<Rightarrow> string \<Rightarrow> string \<Rightarrow> real \<Rightarrow> ContentBasedFilteringEngine" where
  "UpdateUserPreference c t userID preference weight =
     (let profile = (case map_of (userProfiles c) userID of
                       Some profile \<Rightarrow> profile
                     | None \<Rightarrow> \<lparr>UserID = userID, FeatureVector = [], Preferences = [], UpdateTime = t\<rparr>)
      in c\<lparr>userProfiles := put userID
             (profile\<lparr>Preferences := put preference weight (Preferences profile), UpdateTime := t\<rparr>)
             (userProfiles c)\<rparr>)"

definition calculateFeatureSimilarity :: "(string \<times> real) list \<Rightarrow> (string \<times> real) list \<Rightarrow> real" where
  "calculateFeatureSimilarity userFeatures itemFeats =
     (let dotProduct = sum_list (map (\<lambda>(feature, userValue).
            case map_of itemFeats feature of Some itemValue \<Rightarrow> userValue * itemValue | None \<Rightarrow> 0)
            userFeatures);
          normUser = sum_list (map (\<lambda>(feature, userValue). userValue * userValue) userFeatures);
          normItem = sum_list (map (\<lambda>(feature, itemValue). itemValue * itemValue) itemFeats)
      in if normUser = 0 \<or> normItem = 0 then 0
         else dotProduct / (sqrt normUser * sqrt normItem))"

definition calculateKeywordSimilarity :: "(string \<times> real) list \<Rightarrow> string list \<Rightarrow> real" where
  "calculateKeywordSimilarity userPreferences itemKeywords =
     (if length itemKeywords = 0 then 0
      else
        let matched = filter (has_key userPreferences) itemKeywords;
            totalScore = sum_list (map (lookup0 userPreferences) matched)
        in if length matched = 0 then 0
           else totalScore / real (length itemKeywords))"

definition calculateCategorySimilarity :: "(string \<times> real) list \<Rightarrow> string \<Rightarrow> real" where
  "calculateCategorySimilarity userPreferences category =
     (case map_of userPreferences category of Some preference \<Rightarrow> preference | None \<Rightarrow> 0)"

definition calculateSimilarity :: "UserProfile \<Rightarrow> ItemFeatures \<Rightarrow> real" where
  "calculateSimilarity profile item =
     0.5 * calculateFeatureSimilarity (FeatureVector profile) (Features item)
     + 0.3 * calculateKeywordSimilarity (Preferences profile) (Keywords item)
     + 0.2 * calculateCategorySimilarity (Preferences profile) (Category_feat item)"

text \<open>\<^verbatim>\<open>GenerateRecommendations\<close> of the content-based engine.\<close>

definition content_candidates ::
  "real \<Rightarrow> UserProfile \<Rightarrow> ratings \<Rightarrow> (string \<times> ItemFeatures) list \<Rightarrow> Recommendation list" where
  "content_candidates threshold profile userHistory items =
     concat (map (\<lambda>(itemID, item).
       if has_key userHistory itemID then []
       else if calculateSimilarity profile item \<ge> threshold
            then [\<lparr>ItemID_rec = itemID, Score_rec = calculateSimilarity profile item\<rparr>]
            else []) items)"

definition ContentBased_GenerateRecommendations ::
  "ContentBasedFilteringEngine \<Rightarrow> string \<Rightarrow> int \<Rightarrow> panic + Recommendation list" where
  "ContentBased_GenerateRecommendations c userID topN =
     (case map_of (userProfiles c) userID of
        None \<Rightarrow> Inr []
      | Some profile \<Rightarrow>
          truncate_to topN
            (sort_Slice (\<lambda>a b. Score_rec a > Score_rec b)
              (content_candidates (SimilarityThreshold_cb (cb_config c)) profile
                 (row (userItemHistory c) userID) (itemFeatures c))))"

section \<open>Hybrid filtering (algorithms package)\<close>

record HybridFilteringConfig =
  CollaborativeWeight :: real
  ContentBasedWeight :: real
  DiversityWeight :: real
  PopularityWeight :: real
  RecencyWeight :: real
  EnableDiversity :: bool
  EnablePopularity :: bool
  EnableRecency :: bool

text \<open>The phrases that \<^verbatim>\<open>generateRecommendationReason\<close> joins, as tags, in the order of the
  code; \<open>Generic\<close> is the phrase returned when no other applies.\<close>

datatype reason_tag = HistoryPreference | SimilarContent | NewCategory | Trending | Generic

record HybridRecommendation =
  ItemID_hyb :: string
  Score_hyb :: real
  CollaborativeScore :: real
  ContentBasedScore :: real
  DiversityScore :: real
  PopularityScore :: real
  RecencyScore :: real
  Confidence :: real
  Reason :: "reason_tag list"

text \<open>The engine; its \<^verbatim>\<open>weights\<close> map is written by \<^verbatim>\<open>UpdateWeights\<close> and read by no
  computation, and is left out.\<close>

record HybridFilteringEngine =
  collaborative :: CollaborativeFilteringEngine
  contentBased :: ContentBasedFilteringEngine
  hyb_config :: HybridFilteringConfig

definition NewHybridFilteringEngine ::
  "CollaborativeFilteringEngine \<Rightarrow> ContentBasedFilteringEngine \<Rightarrow> HybridFilteringEngine" where
  "NewHybridFilteringEngine cf cb =
     \<lparr>collaborative = cf, contentBased = cb,
      hyb_config = \<lparr>CollaborativeWeight = 0.4, ContentBasedWeight = 0.4, DiversityWeight = 0.1,
                    PopularityWeight = 0.05, RecencyWeight = 0.05,
                    EnableDiversity = True, EnablePopularity = True, EnableRecency = True\<rparr>\<rparr>"

text \<open>A Go struct literal that names two or three fields: the others are zero.\<close>

definition hybrid_zero :: "string \<Rightarrow> real \<Rightarrow> real \<Rightarrow> HybridRecommendation" where
  "hybrid_zero itemID collab content =
     \<lparr>ItemID_hyb = itemID, Score_hyb = 0, CollaborativeScore = collab, ContentBasedScore = content,
      DiversityScore = 0, PopularityScore = 0, RecencyScore = 0, Confidence = 0, Reason = []\<rparr>"

definition mergeRecommendations ::
  "Recommendation list \<Rightarrow> Recommendation list \<Rightarrow> (string \<times> HybridRecommendation) list" where
  "mergeRecommendations collaborativeRecs contentBasedRecs =
     (let merged1 = foldl (\<lambda>merged r.
            case map_of merged (ItemID_rec r) of
              None \<Rightarrow> put (ItemID_rec r) (hybrid_zero (ItemID_rec r) (Score_rec r) 0) merged
            | Some hybridRec \<Rightarrow>
                put (ItemID_rec r) (hybridRec\<lparr>CollaborativeScore := Score_rec r\<rparr>) merged)
          [] collaborativeRecs
      in foldl (\<lambda>merged r.
            case map_of merged (ItemID_rec r) of
              None \<Rightarrow> put (ItemID_rec r) (hybrid_zero (ItemID_rec r) 0 (Score_rec r)) merged
            | Some hybridRec \<Rightarrow>
                put (ItemID_rec r) (hybridRec\<lparr>ContentBasedScore := Score_rec r\<rparr>) merged)
          merged1 contentBasedRecs)"

text \<open>\<^verbatim>\<open>categoryCount[c]++\<close> for every item of the user's history that has features.\<close>

definition category_counts ::
  "(string \<times> ItemFeatures) list \<Rightarrow> string list \<Rightarrow> (string \<times> nat) list" where
  "category_counts feats history =
     foldl (\<lambda>categoryCount histItemID.
        case map_of feats histItemID of
          None \<Rightarrow> categoryCount
        | Some f \<Rightarrow>
            put (Category_feat f)
              (Suc (case map_of categoryCount (Category_feat f) of None \<Rightarrow> 0 | Some n \<Rightarrow> n))
              categoryCount)
       [] history"

definition calculateDiversityScore :: "HybridFilteringEngine \<Rightarrow> string \<Rightarrow> string \<Rightarrow> real" where
  "calculateDiversityScore h userID itemID =
     (let userHistory = row (userItemMatrix (collaborative h)) userID
      in if length userHistory = 0 then 1
         else
           case map_of (itemFeatures (contentBased h)) itemID of
             None \<Rightarrow> 0.5
           | Some item \<Rightarrow>
               (let categoryCount = category_counts (itemFeatures (contentBased h)) (map fst userHistory);
                    histCategoryCount =
                      (case map_of categoryCount (Category_feat item) of None \<Rightarrow> 0 | Some n \<Rightarrow> n);
                    maxCount = foldl (\<lambda>m count. if count > m then count else m) 0
                                 (map snd categoryCount)
                in if maxCount = 0 then 1
                   else max 0 (1 - real histCategoryCount / real maxCount)))"

text \<open>The number of users whose ratings hold the item.\<close>

definition rating_count :: "matrix \<Rightarrow> string \<Rightarrow> nat" where
  "rating_count m itemID = length (filter (\<lambda>(userID, userRatings). has_key userRatings itemID) m)"

definition calculatePopularityScore :: "HybridFilteringEngine \<Rightarrow> string \<Rightarrow> real" where
  "calculatePopularityScore h itemID =
     (let ratingCount = rating_count (userItemMatrix (collaborative h)) itemID;
          maxRatingCount = foldl (\<lambda>m (userID, userRatings).
              if length userRatings > m then length userRatings else m) 0
            (userItemMatrix (collaborative h))
      in if maxRatingCount = 0 then 0.5
         else real ratingCount / real maxRatingCount)"

definition calculateRecencyScore :: "HybridFilteringEngine \<Rightarrow> string \<Rightarrow> real" where
  "calculateRecencyScore h itemID =
     min 1 (real (rating_count (userItemMatrix (collaborative h)) itemID) / 100)"

definition calculateConfidence :: "HybridRecommendation \<Rightarrow> real" where
  "calculateConfidence r =
     (if CollaborativeScore r > 0.5 \<and> ContentBasedScore r > 0.5 then 0.9
      else if \<bar>CollaborativeScore r - ContentBasedScore r\<bar> > 0.8 then 0.3
      else 0.7)"

definition generateRecommendationReason :: "HybridRecommendation \<Rightarrow> reason_tag list" where
  "generateRecommendationReason r =
     (let reasons = (if CollaborativeScore r > 0.5 then [HistoryPreference] else [])
                  @ (if ContentBasedScore r > 0.5 then [SimilarContent] else [])
                  @ (if DiversityScore r > 0.7 then [NewCategory] else [])
                  @ (if PopularityScore r > 0.7 then [Trending] else [])
      in if length reasons = 0 then [Generic] else reasons)"

text \<open>The body of the loop of \<^verbatim>\<open>calculateHybridScores\<close> for one merged record.\<close>

definition hybrid_score :: "HybridFilteringEngine \<Rightarrow> string \<Rightarrow> HybridRecommendation \<Rightarrow> HybridRecommendation" where
  "hybrid_score h userID r =
     (let cfg = hyb_config h;
          baseScore = CollaborativeWeight cfg * CollaborativeScore r
                    + ContentBasedWeight cfg * ContentBasedScore r;
          diversityScore = (if EnableDiversity cfg then calculateDiversityScore h userID (ItemID_hyb r) else 0);
          popularityScore = (if EnablePopularity cfg then calculatePopularityScore h (ItemID_hyb r) else 0);
          recencyScore = (if EnableRecency cfg then calculateRecencyScore h (ItemID_hyb r) else 0);
          finalScore = baseScore + DiversityWeight cfg * diversityScore
                     + PopularityWeight cfg * popularityScore + RecencyWeight cfg * recencyScore;
          r1 = r\<lparr>Score_hyb := finalScore, DiversityScore := diversityScore,
                 PopularityScore := popularityScore, RecencyScore := recencyScore\<rparr>;
          r2 = r1\<lparr>Confidence := calculateConfidence r1\<rparr>
      in r2\<lparr>Reason := generateRecommendationReason r2\<rparr>)"

definition calculateHybridScores ::
  "HybridFilteringEngine \<Rightarrow> string \<Rightarrow> (string \<times> HybridRecommendation) list \<Rightarrow> HybridRecommendation list" where
  "calculateHybridScores h userID recommendations =
     map (\<lambda>(itemID, r). hybrid_score h userID r) recommendations"

text \<open>
  \<^verbatim>\<open>applyDiversityOptimization\<close>. The inner loop scans the positions \<open>j = i, ..., n - 1\<close> of
  the slice and keeps the first position of the largest penalised diversity score among
  the records that have features; \<open>None\<close> is the index \<open>-1\<close>. The outer loop swaps the
  record found into position \<open>i\<close> of the slice and appends it to \<^verbatim>\<open>optimized\<close>; when
  no position is found nothing is appended.
\<close>

definition best_candidate ::
  "(string \<times> ItemFeatures) list \<Rightarrow> string list \<Rightarrow> HybridRecommendation list \<Rightarrow> nat
    \<Rightarrow> nat option \<times> real" where
  "best_candidate feats selectedCategories recommendations i =
     foldl (\<lambda>(bestIdx, bestDiversityScore) j.
        case map_of feats (ItemID_hyb (recommendations ! j)) of
          None \<Rightarrow> (bestIdx, bestDiversityScore)
        | Some item \<Rightarrow>
            (let diversityScore =
                   (if Category_feat item \<in> set selectedCategories
                    then DiversityScore (recommendations ! j) * 0.5
                    else DiversityScore (recommendations ! j))
             in if diversityScore > bestDiversityScore then (Some j, diversityScore)
                else (bestIdx, bestDiversityScore)))
       (None, -1) [i ..< length recommendations]"

definition select_category :: "(string \<times> ItemFeatures) list \<Rightarrow> string \<Rightarrow> string list \<Rightarrow> string list" where
  "select_category feats itemID selectedCategories =
     (case map_of feats itemID of
        None \<Rightarrow> selectedCategories
      | Some item \<Rightarrow> Category_feat item # selectedCategories)"

definition diversity_step ::
  "(string \<times> ItemFeatures) list
    \<Rightarrow> HybridRecommendation list \<times> string list \<times> HybridRecommendation list \<Rightarrow> nat
    \<Rightarrow> HybridRecommendation list \<times> string list \<times> HybridRecommendation list" where
  "diversity_step feats st i =
     (let recommendations = fst st; selectedCategories = fst (snd st); optimized = snd (snd st)
      in case fst (best_candidate feats selectedCategories recommendations i) of
           None \<Rightarrow> st
         | Some bestIdx \<Rightarrow>
             (let swapped = recommendations[i := recommendations ! bestIdx,
                                            bestIdx := recommendations ! i]
              in (swapped,
                  select_category feats (ItemID_hyb (swapped ! i)) selectedCategories,
                  optimized @ [swapped ! i])))"

definition applyDiversityOptimization ::
  "HybridFilteringEngine \<Rightarrow> HybridRecommendation list \<Rightarrow> HybridRecommendation list" where
  "applyDiversityOptimization h recommendations =
     (if length recommendations \<le> 1 then recommendations
      else
        snd (snd (foldl (diversity_step (itemFeatures (contentBased h)))
          (recommendations,
           select_category (itemFeatures (contentBased h)) (ItemID_hyb (recommendations ! 0)) [],
           [recommendations ! 0])
          [1 ..< length recommendations])))"

text \<open>\<^verbatim>\<open>GenerateRecommendations\<close> of the hybrid engine. \<open>topN\<close> is a Go \<^verbatim>\<open>int\<close>; the doubling
  is exact for the values of \<open>topN\<close> whose double fits 64 bits.\<close>

definition Hybrid_GenerateRecommendations ::
  "HybridFilteringEngine \<Rightarrow> string \<Rightarrow> int \<Rightarrow> panic + HybridRecommendation list" where
  "Hybrid_GenerateRecommendations h userID topN =
     (case UserBasedRecommend (collaborative h) userID (topN * 2) of
        Inl p \<Rightarrow> Inl p
      | Inr collaborativeRecs \<Rightarrow>
          (case ContentBased_GenerateRecommendations (contentBased h) userID (topN * 2) of
             Inl p \<Rightarrow> Inl p
           | Inr contentBasedRecs \<Rightarrow>
               (let allRecommendations = mergeRecommendations collaborativeRecs contentBasedRecs;
                    hybridRecs = calculateHybridScores h userID allRecommendations;
                    hybridRecs' = (if EnableDiversity (hyb_config h)
                                   then applyDiversityOptimization h hybridRecs else hybridRecs)
                in truncate_to topN
                     (sort_Slice (\<lambda>a b. Score_hyb a > Score_hyb b) hybridRecs'))))"

section \<open>Notions used to state the properties\<close>







text \<open>The items of a returned list; a run that panics returns none.\<close>

definition items_of :: "panic + Recommendation list \<Rightarrow> string set" where
  "items_of res = (case res of Inl p \<Rightarrow> {} | Inr rs \<Rightarrow> ItemID_rec ` set rs)"

definition hybrid_items_of :: "panic + HybridRecommendation list \<Rightarrow> string set" where
  "hybrid_items_of res = (case res of Inl p \<Rightarrow> {} | Inr rs \<Rightarrow> ItemID_hyb ` set rs)"

text \<open>What holds of every entry of the map that \<^const>\<open>mergeRecommendations\<close> builds from the
  two lists: the record carries its key, the key is an item of one of the lists, and each
  component score is 0 or a score of the respective list.\<close>

definition hybrid_ok ::
  "Recommendation list \<Rightarrow> Recommendation list \<Rightarrow> string \<times> HybridRecommendation \<Rightarrow> bool" where
  "hybrid_ok cs bs kr =
     (ItemID_hyb (snd kr) = fst kr \<and> fst kr \<in> ItemID_rec ` (set cs \<union> set bs) \<and>
      (CollaborativeScore (snd kr) = 0 \<or> CollaborativeScore (snd kr) \<in> Score_rec ` set cs) \<and>
      (ContentBasedScore (snd kr) = 0 \<or> ContentBasedScore (snd kr) \<in> Score_rec ` set bs))"

definition merged_ok ::
  "Recommendation list \<Rightarrow> Recommendation list \<Rightarrow> (string \<times> HybridRecommendation) list \<Rightarrow> bool" where
  "merged_ok cs bs m = list_all (hybrid_ok cs bs) m"

text \<open>The invariant of the outer loop of \<^const>\<open>applyDiversityOptimization\<close> on the slice \<open>R\<close>.\<close>

definition diversity_inv ::
  "HybridRecommendation list
    \<Rightarrow> HybridRecommendation list \<times> string list \<times> HybridRecommendation list \<Rightarrow> bool" where
  "diversity_inv R st =
     (length (fst st) = length R \<and> set (fst st) \<subseteq> set R \<and> set (snd (snd st)) \<subseteq> set R)"

text \<open>Ratings none of which is negative.\<close>

definition nonneg :: "('k \<times> real) list \<Rightarrow> bool" where
  "nonneg m = list_all (\<lambda>kv. 0 \<le> snd kv) m"

definition nonneg_matrix :: "matrix \<Rightarrow> bool" where
  "nonneg_matrix m = list_all (\<lambda>kr. nonneg (snd kr)) m"

text \<open>
  The blend in the order of the specification: the scored candidates are sorted by final
  score, the greedy diversity pass rebuilds the sorted list, and the result is cut to
  \<open>topN\<close>. It is made of the functions of the code; only the order of the last steps
  differs from \<^const>\<open>Hybrid_GenerateRecommendations\<close>.
\<close>

definition blend_sort_then_diversify ::
  "HybridFilteringEngine \<Rightarrow> string \<Rightarrow> int \<Rightarrow> panic + HybridRecommendation list" where
  "blend_sort_then_diversify h userID topN =
     (case UserBasedRecommend (collaborative h) userID (topN * 2) of
        Inl p \<Rightarrow> Inl p
      | Inr collaborativeRecs \<Rightarrow>
          (case ContentBased_GenerateRecommendations (contentBased h) userID (topN * 2) of
             Inl p \<Rightarrow> Inl p
           | Inr contentBasedRecs \<Rightarrow>
               truncate_to topN
                 (applyDiversityOptimization h
                   (sort_Slice (\<lambda>a b. Score_hyb a > Score_hyb b)
                     (calculateHybridScores h userID
                       (mergeRecommendations collaborativeRecs contentBasedRecs))))))"

text \<open>
  The popularity component in the words of the specification: the number of users who
  rated the item, divided by the largest number of raters that any item has; 0.5 when
  there is no item.
\<close>

definition popularity_by_items :: "CollaborativeFilteringEngine \<Rightarrow> string \<Rightarrow> real" where
  "popularity_by_items c itemID =
     (if itemUserMatrix c = [] then 0.5
      else real (length (row (itemUserMatrix c) itemID))
           / real (foldr max (map (\<lambda>(i, raters). length raters) (itemUserMatrix c)) 0))"

text \<open>The items and final scores of a returned list, in order.\<close>

definition ids_scores :: "panic + HybridRecommendation list \<Rightarrow> (string \<times> real) list" where
  "ids_scores res = (case res of Inl p \<Rightarrow> [] | Inr rs \<Rightarrow> map (\<lambda>r. (ItemID_hyb r, Score_hyb r)) rs)"


section \<open>Example states\<close>

text \<open>An engine that received the given (user, item, rating) triples through
  \<^const>\<open>AddUserRating\<close>, in order.\<close>

definition rated_engine :: "(string \<times> string \<times> real) list \<Rightarrow> CollaborativeFilteringEngine" where
  "rated_engine triples =
     foldl (\<lambda>c (userID, itemID, rating). AddUserRating c userID itemID rating)
       NewCollaborativeFilteringEngine triples"

text \<open>Two users who agree on five items; \<open>v\<close> has rated the further items \<open>extra\<close>.\<close>

definition neighbours_engine :: "(string \<times> string \<times> real) list \<Rightarrow> CollaborativeFilteringEngine" where
  "neighbours_engine extra =
     rated_engine
       ([(''u'', ''a'', 1), (''u'', ''b'', 2), (''u'', ''c'', 3), (''u'', ''d'', 4), (''u'', ''e'', 5),
         (''v'', ''a'', 1), (''v'', ''b'', 2), (''v'', ''c'', 3), (''v'', ''d'', 4), (''v'', ''e'', 5)]
        @ extra)"

text \<open>Two more users, \<open>w\<close> and \<open>z\<close>, who agree with \<open>u\<close> on the five items and rated
  \<open>x\<close> as \<open>v\<close> did.\<close>

definition crowd_extra :: "(string \<times> string \<times> real) list" where
  "crowd_extra =
     [(''v'', ''x'', 5),
      (''w'', ''a'', 1), (''w'', ''b'', 2), (''w'', ''c'', 3), (''w'', ''d'', 4), (''w'', ''e'', 5),
      (''w'', ''x'', 5),
      (''z'', ''a'', 1), (''z'', ''b'', 2), (''z'', ''c'', 3), (''z'', ''d'', 4), (''z'', ''e'', 5),
      (''z'', ''x'', 5)]"

text \<open>A content engine with three items and a user profile set through
  \<^const>\<open>UpdateUserPreference\<close>.\<close>

definition content_example :: ContentBasedFilteringEngine where
  "content_example =
     UpdateUserPreference (UpdateUserPreference (UpdateUserPreference (UpdateUserPreference
       (AddItemFeatures (AddItemFeatures (AddItemFeatures NewContentBasedFilteringEngine
          ''a'' ''books'' [''novel''] [])
          ''b'' ''books'' [''poetry''] [])
          ''c'' ''music'' [] [])
       0 ''u'' ''books'' 2) 0 ''u'' ''music'' 2) 0 ''u'' ''novel'' 1) 0 ''u'' ''poetry'' (1 / 2)"

text \<open>A content engine with one item and a user whose preference for the item's category
  was set to 20.\<close>

definition keen_example :: ContentBasedFilteringEngine where
  "keen_example = UpdateUserPreference
     (AddItemFeatures NewContentBasedFilteringEngine ''item_001'' ''technology'' [] [])
     0 ''u'' ''technology'' 20"

section \<open>Properties of the merge\<close>

lemma alloc_fresh_empty: "fst (alloc h) ! snd (alloc h) = []"
  by (simp add: alloc_def)

text \<open>On a collision the stored record is never replaced: whatever the incoming record
  holds, \<^verbatim>\<open>itemMap\<close> is the same after the step.\<close>

lemma merge_item_collision_keeps_itemMap:
  assumes "map_of itemMap (ItemID item) = Some existing"
    and "merge_item source score (h, itemMap) item = Inr (h', itemMap')"
  shows "itemMap' = itemMap"
  using assms
  by (auto simp: merge_item_def Let_def split: option.splits iface.splits)

text \<open>On a collision an incoming record without a metadata map makes the step panic.\<close>

lemma merge_item_collision_nil_metadata:
  assumes "map_of itemMap (ItemID item) = Some existing" and "Metadata item = None"
  shows "merge_item source score (h, itemMap) item = Inl TypeAssertionPanic"
  using assms
  by (simp add: merge_item_def Let_def ensure_metadata_def alloc_def)


text \<open>
  C1. Two recall results that share an item, merged by \<^const>\<open>MergeResults\<close>: the claim is that
  the merged record carries the larger of the two scores and both source names. Here the
  sources are visited in the order \<open>A\<close> (score 0.6), \<open>B\<close> (score 0.8); the record of \<open>B\<close>
  already holds a \<^verbatim>\<open>"sources"\<close> slice in its own metadata map, so that the type assertion
  succeeds. The run returns one record for the item, with the score of \<open>A\<close> and the
  provenance \<open>[A]\<close>: the score 0.8 and the name \<open>B\<close> went to the loop's copy.
\<close>

theorem MergeResults_overlap_keeps_first_visited:
  "(case MergeResults
       [[(''storage'', OtherValue ''256GB'')],
        [(''storage'', OtherValue ''256GB''), (''sources'', StringSlice [''B''])]]
       [(''A'', mk_result [mk_item ''item_001'' (Some 0)] 0.6 ''recent_behavior''),
        (''B'', mk_result [mk_item ''item_001'' (Some 1)] 0.8 ''popular_items'')] of
      Inr (h, [it]) \<Rightarrow>
        ItemID it = ''item_001'' \<and> Popularity it = 0.6 \<and> Popularity it < max 0.6 0.8 \<and>
        sources_of h it = Some (StringSlice [''A''])
    | _ \<Rightarrow> False)"
  by (simp add: MergeResults_def merge_item_def mk_result_def mk_item_def ensure_metadata_def
      sources_of_def)

text \<open>
  C2. \<^const>\<open>MergeResults\<close> is claimed to return for every input. It panics at the type
  assertion of the collision branch in each of these runs: two sources sharing an item
  whose records have no metadata map; two sources sharing an item whose records have a
  metadata map without the key \<^verbatim>\<open>"sources"\<close> (the records of the in-memory data source);
  one source listing an item twice, without a metadata map.
\<close>

theorem MergeResults_panics_on_collision:
  "MergeResults []
     [(''A'', mk_result [mk_item ''item_001'' None] 0.8 ''popular_items''),
      (''B'', mk_result [mk_item ''item_001'' None] 0.8 ''popular_items'')]
     = Inl TypeAssertionPanic \<and>
   MergeResults [[(''storage'', OtherValue ''256GB'')], [(''storage'', OtherValue ''256GB'')]]
     [(''A'', mk_result [mk_item ''item_001'' (Some 0)] 0.8 ''popular_items''),
      (''B'', mk_result [mk_item ''item_001'' (Some 1)] 0.8 ''popular_items'')]
     = Inl TypeAssertionPanic \<and>
   MergeResults []
     [(''A'', mk_result [mk_item ''item_001'' None, mk_item ''item_001'' None] 0.8 ''popular_items'')]
     = Inl TypeAssertionPanic"
  by (simp add: MergeResults_def merge_item_def mk_result_def mk_item_def ensure_metadata_def
      alloc_def)

section \<open>Properties of health check and close\<close>

lemma Close_loop_calls: "fst (Close_loop lastErr sources) = map GetName sources"
  by (induction sources arbitrary: lastErr) (simp_all add: Let_def)

lemma Close_loop_result:
  "snd (Close_loop lastErr sources) =
     (case filter close_failed sources of [] \<Rightarrow> lastErr | fs \<Rightarrow> CloseResult (last fs))"
proof (induction sources arbitrary: lastErr)
  case Nil
  show ?case by simp
next
  case (Cons source sources)
  show ?case
  proof (cases "CloseResult source")
    case None
    then show ?thesis
      using Cons.IH [of lastErr] by (simp add: Let_def close_failed_def)
  next
    case (Some err)
    then show ?thesis
      using Cons.IH [of "Some err"]
      by (simp add: Let_def close_failed_def split: list.splits)
  qed
qed

lemma HealthCheck_calls:
  "fst (HealthCheck sources) =
     map GetName (takeWhile healthy sources @ take 1 (dropWhile healthy sources))"
  by (induction sources) (simp_all add: Let_def healthy_def split: option.splits)

lemma HealthCheck_result:
  "snd (HealthCheck sources) =
     (case dropWhile healthy sources of
        [] \<Rightarrow> None
      | source # _ \<Rightarrow> map_option (HealthCheckFailed (GetName source)) (HealthCheckResult source))"
  by (induction sources) (auto simp: Let_def healthy_def split: option.splits)

text \<open>
  C9, as claimed: both functions call every source and report one error per failing
  source. With \<open>A\<close> failing its health check, \<^const>\<open>HealthCheck\<close> never calls \<open>B\<close>; with
  \<open>A\<close> and \<open>B\<close> both failing to close, \<^const>\<open>Close\<close> returns the error of \<open>B\<close> alone.
\<close>

theorem HealthCheck_Close_no_combined_report:
  "''B'' \<notin> set (fst (HealthCheck
      [mk_source ''A'' (Some (SourceError ''unreachable'')) None, mk_source ''B'' None None])) \<and>
   snd (Close
      [mk_source ''A'' None (Some (SourceError ''busy'')),
       mk_source ''B'' None (Some (SourceError ''timeout''))]) = Some (SourceError ''timeout'')"
  by (simp add: Close_def mk_source_def)

text \<open>
  C9, amended. \<^const>\<open>Close\<close> calls every source in order, whatever fails, and returns the
  error of the last source that failed to close (\<^verbatim>\<open>nil\<close> when none failed).
  \<^const>\<open>HealthCheck\<close> calls the sources in order up to and including the first one that
  fails, and returns the error of that source wrapped with its name (\<^verbatim>\<open>nil\<close> when none
  fails).
\<close>

theorem HealthCheck_Close_behaviour:
  "fst (Close sources) = map GetName sources \<and>
   snd (Close sources) =
     (case filter close_failed sources of [] \<Rightarrow> None | fs \<Rightarrow> CloseResult (last fs)) \<and>
   fst (HealthCheck sources) =
     map GetName (takeWhile healthy sources @ take 1 (dropWhile healthy sources)) \<and>
   snd (HealthCheck sources) =
     (case dropWhile healthy sources of
        [] \<Rightarrow> None
      | source # _ \<Rightarrow> map_option (HealthCheckFailed (GetName source)) (HealthCheckResult source))"
  unfolding Close_def
  using Close_loop_calls [of None sources] Close_loop_result [of None sources]
    HealthCheck_calls [of sources] HealthCheck_result [of sources]
  by simp

theorem HealthCheck_Close_behaviour_witness:
  "fst (Close [mk_source ''A'' None (Some (SourceError ''busy'')),
               mk_source ''B'' None None,
               mk_source ''C'' None (Some (SourceError ''timeout''))]) = [''A'', ''B'', ''C''] \<and>
   snd (Close [mk_source ''A'' None (Some (SourceError ''busy'')),
               mk_source ''B'' None None,
               mk_source ''C'' None (Some (SourceError ''timeout''))])
     = Some (SourceError ''timeout'') \<and>
   fst (HealthCheck [mk_source ''A'' None None,
                     mk_source ''B'' (Some (SourceError ''unreachable'')) None,
                     mk_source ''C'' None None]) = [''A'', ''B''] \<and>
   snd (HealthCheck [mk_source ''A'' None None,
                     mk_source ''B'' (Some (SourceError ''unreachable'')) None,
                     mk_source ''C'' None None])
     = Some (HealthCheckFailed ''B'' (SourceError ''unreachable''))"
  using HealthCheck_Close_behaviour
    [of "[mk_source ''A'' None (Some (SourceError ''busy'')),
          mk_source ''B'' None None,
          mk_source ''C'' None (Some (SourceError ''timeout''))]"]
    HealthCheck_Close_behaviour
    [of "[mk_source ''A'' None None,
          mk_source ''B'' (Some (SourceError ''unreachable'')) None,
          mk_source ''C'' None None]"]
  by (simp add: mk_source_def close_failed_def healthy_def)


section \<open>Properties of sorting and truncation\<close>

lemma set_insert_left: "set (insert_left lt x p) = insert x (set p)"
  by (induction p) auto

lemma set_insertion_fold: "set (foldl (\<lambda>p x. insert_left lt x p) p xs) = set p \<union> set xs"
  by (induction xs arbitrary: p) (auto simp: set_insert_left)

lemma set_sort_Slice: "set (sort_Slice lt xs) = set xs"
  by (simp add: sort_Slice_def set_insertion_fold)




lemma truncate_to_Inr: "truncate_to n xs = Inr ys \<Longrightarrow> ys = take (nat n) xs"
  by (auto simp: truncate_to_def split: if_splits)


lemma ranked_items:
  assumes "ranked recommendations topN = Inr rs"
  shows "ItemID_rec ` set rs \<subseteq> fst ` set recommendations"
proof -
  let ?sorted = "sort_Slice (\<lambda>a b. Score_rec a > Score_rec b)
         (map (\<lambda>(itemID, score). \<lparr>ItemID_rec = itemID, Score_rec = score\<rparr>) recommendations)"
  have rs: "rs = take (nat topN) ?sorted"
    using assms unfolding ranked_def by (rule truncate_to_Inr)
  have "set rs \<subseteq> set ?sorted"
    unfolding rs by (rule set_take_subset)
  then show ?thesis
    by (force simp: set_sort_Slice)
qed

section \<open>Properties of the similarity functions\<close>

lemma sqrt_100: "sqrt 100 = 10"
  by (rule real_sqrt_unique) simp_all




















section \<open>Properties of the ranked lists\<close>

lemma cf_config_ingest:
  "cf_config (foldl (\<lambda>c (userID, itemID, rating). AddUserRating c userID itemID rating) c triples)
     = cf_config c"
  by (induction triples arbitrary: c) (auto simp: AddUserRating_def)

lemma cf_config_rated_engine:
  "cf_config (rated_engine triples) = cf_config NewCollaborativeFilteringEngine"
  unfolding rated_engine_def by (rule cf_config_ingest)




section \<open>Properties of the recommenders: what a returned list can hold\<close>

lemma map_of_put: "map_of (put k v m) = (map_of m)(k \<mapsto> v)"
  by (induction m) (auto simp: fun_eq_iff)

lemma keys_put: "fst ` set (put k v m) = insert k (fst ` set m)"
  by (simp add: dom_map_of_conv_image_fst [symmetric] map_of_put)

lemma keys_accumulate:
  "fst ` set (accumulate userRatings w acc pairs) \<subseteq> fst ` set acc \<union> {k. \<not> has_key userRatings k}"
  unfolding accumulate_def
proof (induction pairs arbitrary: acc)
  case Nil
  show ?case by simp
next
  case (Cons p pairs)
  obtain itemID rating where p: "p = (itemID, rating)"
    by (cases p)
  show ?case
  proof (cases "has_key userRatings itemID")
    case True
    then show ?thesis
      using Cons.IH [of acc] by (simp add: p)
  next
    case False
    then show ?thesis
      using Cons.IH [of "put itemID (lookup0 acc itemID + w * rating) acc"]
      by (auto simp: p keys_put)
  qed
qed

lemma keys_user_based_fold:
  "fst ` set (foldl (\<lambda>acc (similarUser, similarity).
        accumulate userRatings similarity acc (row m similarUser)) acc similarUsers)
     \<subseteq> fst ` set acc \<union> {k. \<not> has_key userRatings k}"
proof (induction similarUsers arbitrary: acc)
  case Nil
  show ?case by simp
next
  case (Cons su similarUsers)
  obtain similarUser similarity where su: "su = (similarUser, similarity)"
    by (cases su)
  show ?case
    using Cons.IH [of "accumulate userRatings similarity acc (row m similarUser)"]
      keys_accumulate [of userRatings similarity acc "row m similarUser"]
    by (auto simp: su)
qed

lemma keys_item_based_loop:
  assumes "item_based_loop c userRatings acc rest = Inr recommendations"
  shows "fst ` set recommendations \<subseteq> fst ` set acc \<union> {k. \<not> has_key userRatings k}"
  using assms
proof (induction rest arbitrary: acc)
  case Nil
  then show ?case by auto
next
  case (Cons p rest)
  obtain userItemID userRating where p: "p = (userItemID, userRating)"
    by (cases p)
  from Cons.prems obtain similarItems where
    sim: "findSimilarItems c userItemID = Inr similarItems" and
    loop: "item_based_loop c userRatings (accumulate userRatings userRating acc similarItems) rest
            = Inr recommendations"
    by (auto simp: p split: sum.splits)
  show ?case
    using Cons.IH [OF loop] keys_accumulate [of userRatings userRating acc similarItems]
    by auto
qed

lemma UserBasedRecommend_excludes:
  assumes "has_key (row (userItemMatrix c) userID) itemID"
  shows "itemID \<notin> items_of (UserBasedRecommend c userID topN)"
proof (cases "map_of (userItemMatrix c) userID")
  case None
  then show ?thesis
    by (simp add: UserBasedRecommend_def items_of_def)
next
  case (Some userRatings)
  then have rated: "has_key userRatings itemID"
    using assms by (simp add: row_def)
  show ?thesis
  proof (cases "UserBasedRecommend c userID topN")
    case (Inl p)
    then show ?thesis by (simp add: items_of_def)
  next
    case (Inr rs)
    then obtain similarUsers where
      rs: "ranked (foldl (\<lambda>acc (similarUser, similarity).
             accumulate userRatings similarity acc (row (userItemMatrix c) similarUser))
             [] similarUsers) topN = Inr rs"
      by (auto simp: UserBasedRecommend_def Some split: sum.splits)
    have "ItemID_rec ` set rs \<subseteq> {k. \<not> has_key userRatings k}"
      using ranked_items [OF rs]
        keys_user_based_fold [of userRatings "userItemMatrix c" "[]" similarUsers]
      by auto
    then show ?thesis
      using rated by (auto simp: Inr items_of_def)
  qed
qed

lemma ItemBasedRecommend_excludes:
  assumes "has_key (row (userItemMatrix c) userID) itemID"
  shows "itemID \<notin> items_of (ItemBasedRecommend c userID topN)"
proof (cases "map_of (userItemMatrix c) userID")
  case None
  then show ?thesis
    by (simp add: ItemBasedRecommend_def items_of_def)
next
  case (Some userRatings)
  then have rated: "has_key userRatings itemID"
    using assms by (simp add: row_def)
  show ?thesis
  proof (cases "ItemBasedRecommend c userID topN")
    case (Inl p)
    then show ?thesis by (simp add: items_of_def)
  next
    case (Inr rs)
    then obtain recommendations where
      loop: "item_based_loop c userRatings [] userRatings = Inr recommendations" and
      rs: "ranked recommendations topN = Inr rs"
      by (auto simp: ItemBasedRecommend_def Some split: sum.splits)
    have "ItemID_rec ` set rs \<subseteq> {k. \<not> has_key userRatings k}"
      using ranked_items [OF rs] keys_item_based_loop [OF loop]
      by auto
    then show ?thesis
      using rated by (auto simp: Inr items_of_def)
  qed
qed

lemma items_content_candidates:
  "ItemID_rec ` set (content_candidates threshold profile userHistory items)
     \<subseteq> {k. \<not> has_key userHistory k}"
  by (auto simp: content_candidates_def split: if_splits)

lemma scores_content_candidates:
  "r \<in> set (content_candidates threshold profile userHistory items) \<Longrightarrow> Score_rec r \<ge> threshold"
  by (auto simp: content_candidates_def split: if_splits)

lemma ContentBased_excludes:
  assumes "has_key (row (userItemHistory c) userID) itemID"
  shows "itemID \<notin> items_of (ContentBased_GenerateRecommendations c userID topN)"
proof (cases "ContentBased_GenerateRecommendations c userID topN")
  case (Inl p)
  then show ?thesis by (simp add: items_of_def)
next
  case (Inr rs)
  show ?thesis
  proof (cases "map_of (userProfiles c) userID")
    case None
    then show ?thesis
      by (simp add: ContentBased_GenerateRecommendations_def items_of_def)
  next
    case (Some profile)
    let ?cands = "content_candidates (SimilarityThreshold_cb (cb_config c)) profile
                 (row (userItemHistory c) userID) (itemFeatures c)"
    have "rs = take (nat topN) (sort_Slice (\<lambda>a b. Score_rec a > Score_rec b) ?cands)"
      using Inr by (auto simp: ContentBased_GenerateRecommendations_def Some dest: truncate_to_Inr)
    then have "set rs \<subseteq> set ?cands"
      using set_take_subset [of "nat topN" "sort_Slice (\<lambda>a b. Score_rec a > Score_rec b) ?cands"]
      by (simp add: set_sort_Slice)
    then have "ItemID_rec ` set rs \<subseteq> {k. \<not> has_key (row (userItemHistory c) userID) k}"
      using items_content_candidates [of "SimilarityThreshold_cb (cb_config c)" profile
          "row (userItemHistory c) userID" "itemFeatures c"]
      by blast
    then show ?thesis
      using assms by (auto simp: Inr items_of_def)
  qed
qed

lemma set_put_subset: "set (put k v m) \<subseteq> insert (k, v) (set m)"
  by (induction m) (auto split: if_splits)

lemma merged_ok_put:
  assumes "merged_ok cs bs m" and "hybrid_ok cs bs (k, r)"
  shows "merged_ok cs bs (put k r m)"
proof -
  have "p = (k, r) \<or> p \<in> set m" if "p \<in> set (put k r m)" for p
    using that set_put_subset [of k r m] by blast
  then show ?thesis
    using assms unfolding merged_ok_def list_all_iff by blast
qed

lemma merged_ok_lookup:
  assumes "merged_ok cs bs m" and "map_of m k = Some r"
  shows "hybrid_ok cs bs (k, r)"
proof -
  have "(k, r) \<in> set m"
    using assms(2) by (rule map_of_SomeD)
  then show ?thesis
    using assms(1) unfolding merged_ok_def list_all_iff by blast
qed

lemma hybrid_ok_zero_collab:
  "x \<in> set cs \<Longrightarrow> hybrid_ok cs bs (ItemID_rec x, hybrid_zero (ItemID_rec x) (Score_rec x) 0)"
  by (simp add: hybrid_ok_def hybrid_zero_def)

lemma hybrid_ok_zero_content:
  "x \<in> set bs \<Longrightarrow> hybrid_ok cs bs (ItemID_rec x, hybrid_zero (ItemID_rec x) 0 (Score_rec x))"
  by (simp add: hybrid_ok_def hybrid_zero_def)

lemma hybrid_ok_update_collab:
  "x \<in> set cs \<Longrightarrow> hybrid_ok cs bs (k, r) \<Longrightarrow> hybrid_ok cs bs (k, r\<lparr>CollaborativeScore := Score_rec x\<rparr>)"
  by (simp add: hybrid_ok_def)

lemma hybrid_ok_update_content:
  "x \<in> set bs \<Longrightarrow> hybrid_ok cs bs (k, r) \<Longrightarrow> hybrid_ok cs bs (k, r\<lparr>ContentBasedScore := Score_rec x\<rparr>)"
  by (simp add: hybrid_ok_def)

lemma merged_ok_collab_fold:
  assumes "merged_ok cs bs m" and "set xs \<subseteq> set cs"
  shows "merged_ok cs bs (foldl (\<lambda>merged r.
            case map_of merged (ItemID_rec r) of
              None \<Rightarrow> put (ItemID_rec r) (hybrid_zero (ItemID_rec r) (Score_rec r) 0) merged
            | Some hybridRec \<Rightarrow>
                put (ItemID_rec r) (hybridRec\<lparr>CollaborativeScore := Score_rec r\<rparr>) merged) m xs)"
  using assms
proof (induction xs arbitrary: m)
  case Nil
  then show ?case by simp
next
  case (Cons x xs)
  have x: "x \<in> set cs"
    using Cons.prems(2) by simp
  have step: "merged_ok cs bs (case map_of m (ItemID_rec x) of
              None \<Rightarrow> put (ItemID_rec x) (hybrid_zero (ItemID_rec x) (Score_rec x) 0) m
            | Some hybridRec \<Rightarrow>
                put (ItemID_rec x) (hybridRec\<lparr>CollaborativeScore := Score_rec x\<rparr>) m)"
  proof (cases "map_of m (ItemID_rec x)")
    case None
    show ?thesis
      unfolding None option.case
      by (rule merged_ok_put [OF Cons.prems(1)]) (rule hybrid_ok_zero_collab [OF x])
  next
    case (Some hybridRec)
    show ?thesis
      unfolding Some option.case
      by (rule merged_ok_put [OF Cons.prems(1)])
        (rule hybrid_ok_update_collab [OF x merged_ok_lookup [OF Cons.prems(1) Some]])
  qed
  show ?case
    using Cons.IH [OF step] Cons.prems(2) by simp
qed

lemma merged_ok_content_fold:
  assumes "merged_ok cs bs m" and "set xs \<subseteq> set bs"
  shows "merged_ok cs bs (foldl (\<lambda>merged r.
            case map_of merged (ItemID_rec r) of
              None \<Rightarrow> put (ItemID_rec r) (hybrid_zero (ItemID_rec r) 0 (Score_rec r)) merged
            | Some hybridRec \<Rightarrow>
                put (ItemID_rec r) (hybridRec\<lparr>ContentBasedScore := Score_rec r\<rparr>) merged) m xs)"
  using assms
proof (induction xs arbitrary: m)
  case Nil
  then show ?case by simp
next
  case (Cons x xs)
  have x: "x \<in> set bs"
    using Cons.prems(2) by simp
  have step: "merged_ok cs bs (case map_of m (ItemID_rec x) of
              None \<Rightarrow> put (ItemID_rec x) (hybrid_zero (ItemID_rec x) 0 (Score_rec x)) m
            | Some hybridRec \<Rightarrow>
                put (ItemID_rec x) (hybridRec\<lparr>ContentBasedScore := Score_rec x\<rparr>) m)"
  proof (cases "map_of m (ItemID_rec x)")
    case None
    show ?thesis
      unfolding None option.case
      by (rule merged_ok_put [OF Cons.prems(1)]) (rule hybrid_ok_zero_content [OF x])
  next
    case (Some hybridRec)
    show ?thesis
      unfolding Some option.case
      by (rule merged_ok_put [OF Cons.prems(1)])
        (rule hybrid_ok_update_content [OF x merged_ok_lookup [OF Cons.prems(1) Some]])
  qed
  show ?case
    using Cons.IH [OF step] Cons.prems(2) by simp
qed

lemma merged_ok_mergeRecommendations: "merged_ok cs bs (mergeRecommendations cs bs)"
  unfolding mergeRecommendations_def Let_def
  by (rule merged_ok_content_fold [OF merged_ok_collab_fold]) (simp_all add: merged_ok_def)

lemma hybrid_score_fields:
  "ItemID_hyb (hybrid_score h userID r) = ItemID_hyb r \<and>
   CollaborativeScore (hybrid_score h userID r) = CollaborativeScore r \<and>
   ContentBasedScore (hybrid_score h userID r) = ContentBasedScore r \<and>
   Score_hyb (hybrid_score h userID r) =
     CollaborativeWeight (hyb_config h) * CollaborativeScore (hybrid_score h userID r)
     + ContentBasedWeight (hyb_config h) * ContentBasedScore (hybrid_score h userID r)
     + DiversityWeight (hyb_config h) * DiversityScore (hybrid_score h userID r)
     + PopularityWeight (hyb_config h) * PopularityScore (hybrid_score h userID r)
     + RecencyWeight (hyb_config h) * RecencyScore (hybrid_score h userID r)"
  by (simp add: hybrid_score_def Let_def)

lemma best_candidate_fold_range:
  assumes "fst (foldl (\<lambda>(bestIdx, bestDiversityScore) j.
        case map_of feats (ItemID_hyb (recommendations ! j)) of
          None \<Rightarrow> (bestIdx, bestDiversityScore)
        | Some item \<Rightarrow>
            (let diversityScore =
                   (if Category_feat item \<in> set selectedCategories
                    then DiversityScore (recommendations ! j) * 0.5
                    else DiversityScore (recommendations ! j))
             in if diversityScore > bestDiversityScore then (Some j, diversityScore)
                else (bestIdx, bestDiversityScore))) st js) = Some b"
  shows "fst st = Some b \<or> b \<in> set js"
  using assms
proof (induction js arbitrary: st)
  case Nil
  then show ?case by simp
next
  case (Cons j js)
  obtain bi bs where st: "st = (bi, bs)"
    by (cases st)
  let ?st' = "case map_of feats (ItemID_hyb (recommendations ! j)) of
          None \<Rightarrow> (bi, bs)
        | Some item \<Rightarrow>
            (let diversityScore =
                   (if Category_feat item \<in> set selectedCategories
                    then DiversityScore (recommendations ! j) * 0.5
                    else DiversityScore (recommendations ! j))
             in if diversityScore > bs then (Some j, diversityScore)
                else (bi, bs))"
  have "fst ?st' = Some b \<or> b \<in> set js"
    using Cons.prems by (intro Cons.IH) (simp add: st)
  moreover have "fst ?st' = bi \<or> fst ?st' = Some j"
    by (simp add: Let_def split: option.splits)
  ultimately show ?case
    by (auto simp: st)
qed

lemma best_candidate_range:
  assumes "fst (best_candidate feats selectedCategories recommendations i) = Some b"
  shows "i \<le> b \<and> b < length recommendations"
  using best_candidate_fold_range [OF assms [unfolded best_candidate_def]]
  by auto

lemma diversity_step_inv:
  assumes "diversity_inv R st" and "i < length R"
  shows "diversity_inv R (diversity_step feats st i)"
proof (cases "fst (best_candidate feats (fst (snd st)) (fst st) i)")
  case None
  then show ?thesis
    using assms(1) by (simp add: diversity_step_def Let_def)
next
  case (Some b)
  have b: "b < length (fst st)"
    using best_candidate_range [OF Some] by simp
  have i: "i < length (fst st)"
    using assms by (simp add: diversity_inv_def)
  let ?swapped = "(fst st)[i := fst st ! b, b := fst st ! i]"
  have "set ((fst st)[i := fst st ! b]) \<subseteq> insert (fst st ! b) (set (fst st))"
    by (rule set_update_subset_insert)
  moreover have "set ?swapped \<subseteq> insert (fst st ! i) (set ((fst st)[i := fst st ! b]))"
    by (rule set_update_subset_insert)
  moreover have "fst st ! b \<in> set (fst st)" and "fst st ! i \<in> set (fst st)"
    using b i by simp_all
  ultimately have "set ?swapped \<subseteq> set (fst st)"
    by blast
  moreover have "?swapped ! i \<in> set ?swapped"
    using i by (intro nth_mem) simp
  ultimately show ?thesis
    using assms(1) by (auto simp: diversity_step_def Let_def Some diversity_inv_def)
qed

lemma diversity_fold_inv:
  assumes "diversity_inv R st" and "\<forall>i \<in> set is. i < length R"
  shows "diversity_inv R (foldl (diversity_step feats) st is)"
  using assms
  by (induction "is" arbitrary: st) (auto simp: diversity_step_inv)

lemma set_applyDiversityOptimization:
  "set (applyDiversityOptimization h recommendations) \<subseteq> set recommendations"
proof (cases "length recommendations \<le> 1")
  case True
  then show ?thesis
    by (simp add: applyDiversityOptimization_def)
next
  case False
  have "diversity_inv recommendations (recommendations,
           select_category (itemFeatures (contentBased h)) (ItemID_hyb (recommendations ! 0)) [],
           [recommendations ! 0])"
  proof -
    have "0 < length recommendations"
      using False by (cases recommendations) simp_all
    then have "recommendations ! 0 \<in> set recommendations"
      by (rule nth_mem)
    then show ?thesis
      by (simp add: diversity_inv_def)
  qed
  then have "diversity_inv recommendations
      (foldl (diversity_step (itemFeatures (contentBased h)))
          (recommendations,
           select_category (itemFeatures (contentBased h)) (ItemID_hyb (recommendations ! 0)) [],
           [recommendations ! 0])
          [1 ..< length recommendations])"
    by (rule diversity_fold_inv) simp
  then show ?thesis
    using False by (simp add: applyDiversityOptimization_def diversity_inv_def)
qed

lemma Hybrid_results:
  assumes "Hybrid_GenerateRecommendations h userID topN = Inr rs"
  obtains collaborativeRecs contentBasedRecs where
    "UserBasedRecommend (collaborative h) userID (topN * 2) = Inr collaborativeRecs"
    "ContentBased_GenerateRecommendations (contentBased h) userID (topN * 2) = Inr contentBasedRecs"
    "set rs \<subseteq> set (calculateHybridScores h userID
        (mergeRecommendations collaborativeRecs contentBasedRecs))"
proof -
  from assms obtain cs bs where
    cs: "UserBasedRecommend (collaborative h) userID (topN * 2) = Inr cs" and
    bs: "ContentBased_GenerateRecommendations (contentBased h) userID (topN * 2) = Inr bs" and
    tr: "truncate_to topN (sort_Slice (\<lambda>a b. Score_hyb a > Score_hyb b)
           (if EnableDiversity (hyb_config h)
            then applyDiversityOptimization h (calculateHybridScores h userID (mergeRecommendations cs bs))
            else calculateHybridScores h userID (mergeRecommendations cs bs))) = Inr rs"
    by (auto simp: Hybrid_GenerateRecommendations_def Let_def split: sum.splits)
  have "set rs \<subseteq> set (if EnableDiversity (hyb_config h)
            then applyDiversityOptimization h (calculateHybridScores h userID (mergeRecommendations cs bs))
            else calculateHybridScores h userID (mergeRecommendations cs bs))"
    unfolding truncate_to_Inr [OF tr]
    using set_take_subset [of "nat topN" "sort_Slice (\<lambda>a b. Score_hyb a > Score_hyb b)
           (if EnableDiversity (hyb_config h)
            then applyDiversityOptimization h (calculateHybridScores h userID (mergeRecommendations cs bs))
            else calculateHybridScores h userID (mergeRecommendations cs bs))"]
    by (simp add: set_sort_Slice)
  then have "set rs \<subseteq> set (calculateHybridScores h userID (mergeRecommendations cs bs))"
    using set_applyDiversityOptimization [of h "calculateHybridScores h userID (mergeRecommendations cs bs)"]
    by (auto split: if_splits)
  then show ?thesis
    using that cs bs by blast
qed


lemma nonneg_lookup0: "nonneg m \<Longrightarrow> 0 \<le> lookup0 m k"
  by (auto simp: nonneg_def lookup0_def list_all_iff split: option.splits dest!: map_of_SomeD)

lemma nonneg_put:
  assumes "nonneg m" and "0 \<le> v"
  shows "nonneg (put k v m)"
proof -
  have "p = (k, v) \<or> p \<in> set m" if "p \<in> set (put k v m)" for p
    using that set_put_subset [of k v m] by blast
  then show ?thesis
    using assms unfolding nonneg_def list_all_iff by fastforce
qed

lemma nonneg_row:
  assumes "nonneg_matrix m"
  shows "nonneg (row m k)"
proof (cases "map_of m k")
  case None
  then show ?thesis
    by (simp add: row_def nonneg_def)
next
  case (Some r)
  then have "(k, r) \<in> set m"
    by (rule map_of_SomeD)
  then have "nonneg r"
    using assms unfolding nonneg_matrix_def list_all_iff by fastforce
  then show ?thesis
    by (simp add: row_def Some)
qed

lemma nonneg_accumulate:
  assumes "nonneg acc" and "nonneg pairs" and "0 \<le> w"
  shows "nonneg (accumulate userRatings w acc pairs)"
  using assms(1,2)
  unfolding accumulate_def
proof (induction pairs arbitrary: acc)
  case Nil
  then show ?case by simp
next
  case (Cons p pairs)
  obtain itemID rating where p: "p = (itemID, rating)"
    by (cases p)
  have rating: "0 \<le> rating" and rest: "nonneg pairs"
    using Cons.prems(2) by (simp_all add: p nonneg_def)
  have "0 \<le> lookup0 acc itemID + w * rating"
    using nonneg_lookup0 [OF Cons.prems(1), of itemID] rating assms(3) by simp
  then have "nonneg (put itemID (lookup0 acc itemID + w * rating) acc)"
    by (rule nonneg_put [OF Cons.prems(1)])
  then show ?case
    using Cons.IH [OF _ rest] Cons.prems(1) by (simp add: p)
qed

lemma nonneg_user_based_fold:
  assumes "nonneg acc" and "nonneg_matrix m" and "list_all (\<lambda>su. 0 \<le> snd su) similarUsers"
  shows "nonneg (foldl (\<lambda>acc (similarUser, similarity).
        accumulate userRatings similarity acc (row m similarUser)) acc similarUsers)"
  using assms(1,3)
proof (induction similarUsers arbitrary: acc)
  case Nil
  then show ?case by simp
next
  case (Cons su similarUsers)
  obtain similarUser similarity where su: "su = (similarUser, similarity)"
    by (cases su)
  have "nonneg (accumulate userRatings similarity acc (row m similarUser))"
    using Cons.prems by (intro nonneg_accumulate nonneg_row assms(2)) (simp_all add: su)
  then show ?case
    using Cons.IH Cons.prems(2) by (simp add: su)
qed

lemma similar_candidates_threshold:
  "p \<in> set (similar_candidates sim threshold self others) \<Longrightarrow> threshold \<le> snd p"
  by (auto simp: similar_candidates_def split: if_splits)

lemma findSimilarUsers_threshold:
  assumes "findSimilarUsers c userID = Inr similarUsers" and "p \<in> set similarUsers"
  shows "SimilarityThreshold (cf_config c) \<le> snd p"
proof -
  let ?cands = "similar_candidates (CalculateUserSimilarity c userID)
            (SimilarityThreshold (cf_config c)) userID (map fst (userItemMatrix c))"
  have "similarUsers = take (nat (MaxNeighbors (cf_config c))) (sort_Slice (\<lambda>a b. snd a > snd b) ?cands)"
    using assms(1) unfolding findSimilarUsers_def by (rule truncate_to_Inr)
  then have "set similarUsers \<subseteq> set ?cands"
    using set_take_subset [of "nat (MaxNeighbors (cf_config c))" "sort_Slice (\<lambda>a b. snd a > snd b) ?cands"]
    by (simp add: set_sort_Slice)
  then show ?thesis
    using assms(2) similar_candidates_threshold by blast
qed

lemma ranked_scores:
  assumes "ranked recommendations topN = Inr rs" and "r \<in> set rs"
  shows "(ItemID_rec r, Score_rec r) \<in> set recommendations"
proof -
  let ?sorted = "sort_Slice (\<lambda>a b. Score_rec a > Score_rec b)
         (map (\<lambda>(itemID, score). \<lparr>ItemID_rec = itemID, Score_rec = score\<rparr>) recommendations)"
  have rs: "rs = take (nat topN) ?sorted"
    using assms(1) unfolding ranked_def by (rule truncate_to_Inr)
  have "set rs \<subseteq> set ?sorted"
    unfolding rs by (rule set_take_subset)
  then have "r \<in> set (map (\<lambda>(itemID, score). \<lparr>ItemID_rec = itemID, Score_rec = score\<rparr>) recommendations)"
    using assms(2) by (auto simp: set_sort_Slice)
  then show ?thesis
    by auto
qed

lemma UserBasedRecommend_nonneg:
  assumes "UserBasedRecommend c userID topN = Inr rs" and "r \<in> set rs"
    and "nonneg_matrix (userItemMatrix c)" and "0 \<le> SimilarityThreshold (cf_config c)"
  shows "0 \<le> Score_rec r"
proof (cases "map_of (userItemMatrix c) userID")
  case None
  then show ?thesis
    using assms(1,2) by (simp add: UserBasedRecommend_def)
next
  case (Some userRatings)
  from assms(1) obtain similarUsers where
    sim: "findSimilarUsers c userID = Inr similarUsers" and
    rs: "ranked (foldl (\<lambda>acc (similarUser, similarity).
             accumulate userRatings similarity acc (row (userItemMatrix c) similarUser))
             [] similarUsers) topN = Inr rs"
    by (auto simp: UserBasedRecommend_def Some split: sum.splits)
  have "list_all (\<lambda>su. 0 \<le> snd su) similarUsers"
    unfolding list_all_iff
    using findSimilarUsers_threshold [OF sim] assms(4) by fastforce
  then have "nonneg (foldl (\<lambda>acc (similarUser, similarity).
             accumulate userRatings similarity acc (row (userItemMatrix c) similarUser))
             [] similarUsers)"
    by (intro nonneg_user_based_fold assms(3)) (simp_all add: nonneg_def)
  then show ?thesis
    using ranked_scores [OF rs assms(2)]
    unfolding nonneg_def list_all_iff by fastforce
qed

lemma ContentBased_threshold:
  assumes "ContentBased_GenerateRecommendations c userID topN = Inr rs" and "r \<in> set rs"
  shows "SimilarityThreshold_cb (cb_config c) \<le> Score_rec r"
proof (cases "map_of (userProfiles c) userID")
  case None
  then show ?thesis
    using assms by (simp add: ContentBased_GenerateRecommendations_def)
next
  case (Some profile)
  let ?cands = "content_candidates (SimilarityThreshold_cb (cb_config c)) profile
                 (row (userItemHistory c) userID) (itemFeatures c)"
  have "rs = take (nat topN) (sort_Slice (\<lambda>a b. Score_rec a > Score_rec b) ?cands)"
    using assms(1) by (auto simp: ContentBased_GenerateRecommendations_def Some dest: truncate_to_Inr)
  then have "set rs \<subseteq> set ?cands"
    using set_take_subset [of "nat topN" "sort_Slice (\<lambda>a b. Score_rec a > Score_rec b) ?cands"]
    by (simp add: set_sort_Slice)
  then show ?thesis
    using assms(2) scores_content_candidates by blast
qed

lemma Hybrid_record:
  assumes "Hybrid_GenerateRecommendations h userID topN = Inr rs" and "r \<in> set rs"
  obtains collaborativeRecs contentBasedRecs r0 where
    "UserBasedRecommend (collaborative h) userID (topN * 2) = Inr collaborativeRecs"
    "ContentBased_GenerateRecommendations (contentBased h) userID (topN * 2) = Inr contentBasedRecs"
    "hybrid_ok collaborativeRecs contentBasedRecs (ItemID_hyb r0, r0)"
    "r = hybrid_score h userID r0"
proof -
  from Hybrid_results [OF assms(1)] obtain cs bs where
    cs: "UserBasedRecommend (collaborative h) userID (topN * 2) = Inr cs" and
    bs: "ContentBased_GenerateRecommendations (contentBased h) userID (topN * 2) = Inr bs" and
    sub: "set rs \<subseteq> set (calculateHybridScores h userID (mergeRecommendations cs bs))"
    by blast
  from sub assms(2) obtain k r0 where
    kr: "(k, r0) \<in> set (mergeRecommendations cs bs)" and r: "r = hybrid_score h userID r0"
    by (auto simp: calculateHybridScores_def)
  have "hybrid_ok cs bs (k, r0)"
    using merged_ok_mergeRecommendations [of cs bs] kr
    unfolding merged_ok_def list_all_iff by blast
  moreover from this have "k = ItemID_hyb r0"
    by (simp add: hybrid_ok_def)
  ultimately show ?thesis
    using that cs bs r by blast
qed

lemma map_of_put_same: "map_of (put k v m) k = Some v"
  by (simp add: map_of_put)

lemma AddUserRating_recorded:
  "has_key (row (userItemMatrix (AddUserRating c userID itemID rating)) userID) itemID"
  by (simp add: AddUserRating_def has_key_def row_def map_of_put)

lemma userItemHistory_updateUserProfile:
  "userItemHistory (updateUserProfile c t1 t2 userID item rating) = userItemHistory c"
  by (simp add: updateUserProfile_def Let_def)

lemma AddUserBehavior_recorded:
  "has_key (row (userItemHistory (AddUserBehavior c t1 t2 userID itemID rating)) userID) itemID"
  by (simp add: AddUserBehavior_def Let_def userItemHistory_updateUserProfile has_key_def row_def
      map_of_put split: option.splits)

lemma Hybrid_items:
  "hybrid_items_of (Hybrid_GenerateRecommendations h userID topN)
     \<subseteq> items_of (UserBasedRecommend (collaborative h) userID (topN * 2))
       \<union> items_of (ContentBased_GenerateRecommendations (contentBased h) userID (topN * 2))"
proof (cases "Hybrid_GenerateRecommendations h userID topN")
  case (Inl p)
  then show ?thesis by (simp add: hybrid_items_of_def)
next
  case (Inr rs)
  have "ItemID_hyb r \<in> items_of (UserBasedRecommend (collaborative h) userID (topN * 2))
       \<union> items_of (ContentBased_GenerateRecommendations (contentBased h) userID (topN * 2))"
    if "r \<in> set rs" for r
  proof -
    from Hybrid_record [OF Inr that] obtain cs bs r0 where
      cs: "UserBasedRecommend (collaborative h) userID (topN * 2) = Inr cs" and
      bs: "ContentBased_GenerateRecommendations (contentBased h) userID (topN * 2) = Inr bs" and
      ok: "hybrid_ok cs bs (ItemID_hyb r0, r0)" and
      r: "r = hybrid_score h userID r0"
      by blast
    have "ItemID_hyb r = ItemID_hyb r0"
      unfolding r using hybrid_score_fields [of h userID r0] by simp
    moreover have "ItemID_hyb r0 \<in> ItemID_rec ` (set cs \<union> set bs)"
      using ok by (simp add: hybrid_ok_def)
    ultimately show ?thesis
      by (auto simp: cs bs items_of_def)
  qed
  then show ?thesis
    by (auto simp: Inr hybrid_items_of_def)
qed

section \<open>Exclusion of the history\<close>

text \<open>
  C5, amended. A recommender leaves out the items of the history that its own engine
  holds: the two collaborative recommenders the items the user rated through
  \<^const>\<open>AddUserRating\<close>, the content-based recommender the items ingested through
  \<^const>\<open>AddUserBehavior\<close>; the hybrid blend leaves out the items that both engines hold.
  Ingesting a rating and asking the same engine for recommendations returns a list
  without the item.
\<close>

theorem own_history_excluded:
  "(has_key (row (userItemMatrix c) userID) itemID \<longrightarrow>
      itemID \<notin> items_of (UserBasedRecommend c userID topN) \<and>
      itemID \<notin> items_of (ItemBasedRecommend c userID topN)) \<and>
   (has_key (row (userItemHistory e) userID) itemID \<longrightarrow>
      itemID \<notin> items_of (ContentBased_GenerateRecommendations e userID topN)) \<and>
   (has_key (row (userItemMatrix (collaborative h)) userID) itemID \<and>
    has_key (row (userItemHistory (contentBased h)) userID) itemID \<longrightarrow>
      itemID \<notin> hybrid_items_of (Hybrid_GenerateRecommendations h userID topN)) \<and>
   itemID \<notin> items_of (UserBasedRecommend (AddUserRating c userID itemID rating) userID topN) \<and>
   itemID \<notin> items_of (ItemBasedRecommend (AddUserRating c userID itemID rating) userID topN) \<and>
   itemID \<notin> items_of (ContentBased_GenerateRecommendations
       (AddUserBehavior e t1 t2 userID itemID rating) userID topN)"
proof (intro conjI impI)
  assume "has_key (row (userItemMatrix c) userID) itemID"
  then show "itemID \<notin> items_of (UserBasedRecommend c userID topN)"
    by (rule UserBasedRecommend_excludes)
next
  assume "has_key (row (userItemMatrix c) userID) itemID"
  then show "itemID \<notin> items_of (ItemBasedRecommend c userID topN)"
    by (rule ItemBasedRecommend_excludes)
next
  assume "has_key (row (userItemHistory e) userID) itemID"
  then show "itemID \<notin> items_of (ContentBased_GenerateRecommendations e userID topN)"
    by (rule ContentBased_excludes)
next
  assume both: "has_key (row (userItemMatrix (collaborative h)) userID) itemID \<and>
    has_key (row (userItemHistory (contentBased h)) userID) itemID"
  show "itemID \<notin> hybrid_items_of (Hybrid_GenerateRecommendations h userID topN)"
    using Hybrid_items [of h userID topN]
      UserBasedRecommend_excludes [of "collaborative h" userID itemID "topN * 2"]
      ContentBased_excludes [of "contentBased h" userID itemID "topN * 2"] both
    by blast
next
  show "itemID \<notin> items_of (UserBasedRecommend (AddUserRating c userID itemID rating) userID topN)"
    by (rule UserBasedRecommend_excludes [OF AddUserRating_recorded])
next
  show "itemID \<notin> items_of (ItemBasedRecommend (AddUserRating c userID itemID rating) userID topN)"
    by (rule ItemBasedRecommend_excludes [OF AddUserRating_recorded])
next
  show "itemID \<notin> items_of (ContentBased_GenerateRecommendations
       (AddUserBehavior e t1 t2 userID itemID rating) userID topN)"
    by (rule ContentBased_excludes [OF AddUserBehavior_recorded])
qed

section \<open>Bounds of the hybrid scores\<close>

text \<open>
  C6, amended. Of every record that the hybrid engine returns, the final score is the
  weighted sum of the five component scores, with no clamping; the content-based score
  is 0 or at least the similarity threshold of the content engine; the collaborative
  score is not negative when no rating is negative and the similarity threshold of the
  collaborative engine is not negative. No upper bound is enforced on any of them.
\<close>

theorem hybrid_score_bounds:
  assumes "Hybrid_GenerateRecommendations h userID topN = Inr rs" and "r \<in> set rs"
  shows "Score_hyb r =
           CollaborativeWeight (hyb_config h) * CollaborativeScore r
           + ContentBasedWeight (hyb_config h) * ContentBasedScore r
           + DiversityWeight (hyb_config h) * DiversityScore r
           + PopularityWeight (hyb_config h) * PopularityScore r
           + RecencyWeight (hyb_config h) * RecencyScore r \<and>
         (ContentBasedScore r = 0 \<or>
            SimilarityThreshold_cb (cb_config (contentBased h)) \<le> ContentBasedScore r) \<and>
         (nonneg_matrix (userItemMatrix (collaborative h)) \<and>
            0 \<le> SimilarityThreshold (cf_config (collaborative h)) \<longrightarrow> 0 \<le> CollaborativeScore r)"
proof -
  from Hybrid_record [OF assms] obtain cs bs r0 where
    cs: "UserBasedRecommend (collaborative h) userID (topN * 2) = Inr cs" and
    bs: "ContentBased_GenerateRecommendations (contentBased h) userID (topN * 2) = Inr bs" and
    ok: "hybrid_ok cs bs (ItemID_hyb r0, r0)" and
    r: "r = hybrid_score h userID r0"
    by blast
  have collab: "CollaborativeScore r = CollaborativeScore r0"
    and content: "ContentBasedScore r = ContentBasedScore r0"
    unfolding r using hybrid_score_fields [of h userID r0] by simp_all
  have final: "Score_hyb r =
           CollaborativeWeight (hyb_config h) * CollaborativeScore r
           + ContentBasedWeight (hyb_config h) * ContentBasedScore r
           + DiversityWeight (hyb_config h) * DiversityScore r
           + PopularityWeight (hyb_config h) * PopularityScore r
           + RecencyWeight (hyb_config h) * RecencyScore r"
    unfolding r using hybrid_score_fields [of h userID r0] by blast
  have c1: "ContentBasedScore r0 = 0 \<or> ContentBasedScore r0 \<in> Score_rec ` set bs"
    using ok by (simp add: hybrid_ok_def)
  have c2: "CollaborativeScore r0 = 0 \<or> CollaborativeScore r0 \<in> Score_rec ` set cs"
    using ok by (simp add: hybrid_ok_def)
  have lower: "ContentBasedScore r = 0 \<or>
            SimilarityThreshold_cb (cb_config (contentBased h)) \<le> ContentBasedScore r"
    unfolding content using c1 ContentBased_threshold [OF bs] by auto
  have nn: "0 \<le> CollaborativeScore r"
    if "nonneg_matrix (userItemMatrix (collaborative h))"
      and "0 \<le> SimilarityThreshold (cf_config (collaborative h))"
    unfolding collab using c2 UserBasedRecommend_nonneg [OF cs _ that] by auto
  show ?thesis
    using final lower nn by blast
qed


section \<open>Runs on the example states\<close>

lemmas content_eval = UpdateUserPreference_def AddItemFeatures_def NewContentBasedFilteringEngine_def
    ContentBased_GenerateRecommendations_def content_candidates_def row_def has_key_def
    calculateSimilarity_def calculateFeatureSimilarity_def calculateKeywordSimilarity_def
    calculateCategorySimilarity_def lookup0_def sort_Slice_def Let_def

lemmas score_eval = hybrid_score_def calculateDiversityScore_def category_counts_def
    calculatePopularityScore_def calculateRecencyScore_def rating_count_def calculateConfidence_def
    generateRecommendationReason_def NewHybridFilteringEngine_def hybrid_zero_def
    mergeRecommendations_def calculateHybridScores_def row_def has_key_def Let_def

lemmas diversity_eval = applyDiversityOptimization_def diversity_step_def best_candidate_def
    select_category_def upt_conv_Cons Let_def

lemma content_example_state:
  "content_example =
    \<lparr>userProfiles =
       [(''u'', \<lparr>UserID = ''u'', FeatureVector = [],
                 Preferences = [(''books'', 2), (''music'', 2), (''novel'', 1), (''poetry'', 1 / 2)],
                 UpdateTime = 0\<rparr>)],
     itemFeatures =
       [(''a'', \<lparr>ItemID_feat = ''a'', Category_feat = ''books'', Keywords = [''novel''], Features = []\<rparr>),
        (''b'', \<lparr>ItemID_feat = ''b'', Category_feat = ''books'', Keywords = [''poetry''], Features = []\<rparr>),
        (''c'', \<lparr>ItemID_feat = ''c'', Category_feat = ''music'', Keywords = [], Features = []\<rparr>)],
     userItemHistory = [],
     cb_config = cb_config NewContentBasedFilteringEngine\<rparr>"
  by (simp add: content_example_def content_eval)

lemma content_example_recommendations:
  "ContentBased_GenerateRecommendations content_example ''u'' n =
     truncate_to n [\<lparr>ItemID_rec = ''a'', Score_rec = 7 / 10\<rparr>,
                    \<lparr>ItemID_rec = ''b'', Score_rec = 11 / 20\<rparr>,
                    \<lparr>ItemID_rec = ''c'', Score_rec = 2 / 5\<rparr>]"
  unfolding content_example_state by (simp add: content_eval)

lemma new_user_no_collaborative:
  "0 \<le> n \<Longrightarrow> UserBasedRecommend NewCollaborativeFilteringEngine userID n = Inr []"
  by (simp add: UserBasedRecommend_def NewCollaborativeFilteringEngine_def)

lemma calculatePopularityScore_no_ratings:
  "userItemMatrix (collaborative h) = [] \<Longrightarrow> calculatePopularityScore h itemID = 1 / 2"
  by (simp add: calculatePopularityScore_def)

text \<open>
  C3. The claim is that the returned list is the greedy diversity rebuild of the
  candidates sorted by final score, cut to \<open>topN\<close>. The code runs the greedy pass first
  and sorts by final score afterwards. For a user with three candidates \<open>a\<close>, \<open>b\<close> (both
  in the category of books) and \<open>c\<close> (music), with final scores in this order and
  \<open>topN = 2\<close>, the code returns \<open>a, b\<close>; the order of the specification returns \<open>a, c\<close>.
\<close>

theorem blend_sorted_after_diversity:
  "ids_scores (Hybrid_GenerateRecommendations
      (NewHybridFilteringEngine NewCollaborativeFilteringEngine content_example) ''u'' 2)
     = [(''a'', 81 / 200), (''b'', 69 / 200)] \<and>
   ids_scores (blend_sort_then_diversify
      (NewHybridFilteringEngine NewCollaborativeFilteringEngine content_example) ''u'' 2)
     = [(''a'', 81 / 200), (''c'', 57 / 200)]"
proof -
  let ?h = "NewHybridFilteringEngine NewCollaborativeFilteringEngine content_example"
  define ra where "ra = \<lparr>ItemID_hyb = ''a'', Score_hyb = 81 / 200, CollaborativeScore = 0,
      ContentBasedScore = 7 / 10, DiversityScore = 1, PopularityScore = 1 / 2, RecencyScore = 0,
      Confidence = 7 / 10, Reason = [SimilarContent, NewCategory]\<rparr>"
  define rb where "rb = \<lparr>ItemID_hyb = ''b'', Score_hyb = 69 / 200, CollaborativeScore = 0,
      ContentBasedScore = 11 / 20, DiversityScore = 1, PopularityScore = 1 / 2, RecencyScore = 0,
      Confidence = 7 / 10, Reason = [SimilarContent, NewCategory]\<rparr>"
  define rc where "rc = \<lparr>ItemID_hyb = ''c'', Score_hyb = 57 / 200, CollaborativeScore = 0,
      ContentBasedScore = 2 / 5, DiversityScore = 1, PopularityScore = 1 / 2, RecencyScore = 0,
      Confidence = 7 / 10, Reason = [NewCategory]\<rparr>"
  have sel: "ItemID_hyb ra = ''a''" "ItemID_hyb rb = ''b''" "ItemID_hyb rc = ''c''"
    "DiversityScore ra = 1" "DiversityScore rb = 1" "DiversityScore rc = 1"
    "Score_hyb ra = 81 / 200" "Score_hyb rb = 69 / 200" "Score_hyb rc = 57 / 200"
    by (simp_all add: ra_def rb_def rc_def)
  have feats: "itemFeatures (contentBased ?h) =
       [(''a'', \<lparr>ItemID_feat = ''a'', Category_feat = ''books'', Keywords = [''novel''], Features = []\<rparr>),
        (''b'', \<lparr>ItemID_feat = ''b'', Category_feat = ''books'', Keywords = [''poetry''], Features = []\<rparr>),
        (''c'', \<lparr>ItemID_feat = ''c'', Category_feat = ''music'', Keywords = [], Features = []\<rparr>)]"
    unfolding content_example_state by (simp add: NewHybridFilteringEngine_def)
  have engines: "collaborative ?h = NewCollaborativeFilteringEngine" "contentBased ?h = content_example"
    "EnableDiversity (hyb_config ?h)"
    by (simp_all add: NewHybridFilteringEngine_def)
  have cs: "UserBasedRecommend NewCollaborativeFilteringEngine ''u'' (2 * 2) = Inr []"
    by (rule new_user_no_collaborative) simp
  have bs: "ContentBased_GenerateRecommendations content_example ''u'' (2 * 2) =
     Inr [\<lparr>ItemID_rec = ''a'', Score_rec = 7 / 10\<rparr>, \<lparr>ItemID_rec = ''b'', Score_rec = 11 / 20\<rparr>,
          \<lparr>ItemID_rec = ''c'', Score_rec = 2 / 5\<rparr>]"
    unfolding content_example_recommendations by (simp add: truncate_to_def)
  have scores: "calculateHybridScores ?h ''u'' (mergeRecommendations []
         [\<lparr>ItemID_rec = ''a'', Score_rec = 7 / 10\<rparr>, \<lparr>ItemID_rec = ''b'', Score_rec = 11 / 20\<rparr>,
          \<lparr>ItemID_rec = ''c'', Score_rec = 2 / 5\<rparr>]) = [ra, rb, rc]"
    unfolding content_example_state ra_def rb_def rc_def
    by (simp add: score_eval NewCollaborativeFilteringEngine_def)
  have greedy: "applyDiversityOptimization ?h [ra, rb, rc] = [ra, rc, rb]"
    unfolding applyDiversityOptimization_def feats
    by (simp add: sel diversity_step_def best_candidate_def select_category_def upt_conv_Cons Let_def)
  have sort1: "sort_Slice (\<lambda>a b. Score_hyb a > Score_hyb b) [ra, rc, rb] = [ra, rb, rc]"
    by (simp add: sort_Slice_def sel)
  have sort2: "sort_Slice (\<lambda>a b. Score_hyb a > Score_hyb b) [ra, rb, rc] = [ra, rb, rc]"
    by (simp add: sort_Slice_def sel)
  have code: "Hybrid_GenerateRecommendations ?h ''u'' 2 = Inr [ra, rb]"
    unfolding Hybrid_GenerateRecommendations_def engines(1,2) cs bs sum.case Let_def scores
    by (simp add: engines(3) greedy sort1 truncate_to_def)
  have spec: "blend_sort_then_diversify ?h ''u'' 2 = Inr [ra, rc]"
    unfolding blend_sort_then_diversify_def engines(1,2) cs bs sum.case scores sort2 greedy
    by (simp add: truncate_to_def)
  show ?thesis
    unfolding code spec by (simp add: ids_scores_def sel)
qed

text \<open>
  C4. The claim is that the popularity component is the number of users who rated the
  item divided by the largest rating count of any item. The code divides by the largest
  number of items that any one user rated. Three users rated \<open>x\<close> and one of them rated
  \<open>y\<close> too: the code returns 3 / 2, the quotient of the claim is 1.
\<close>

theorem popularity_divides_by_items_per_user:
  "calculatePopularityScore (NewHybridFilteringEngine (rated_engine
      [(''u1'', ''x'', 5), (''u2'', ''x'', 4), (''u3'', ''x'', 3), (''u3'', ''y'', 1)])
      NewContentBasedFilteringEngine) ''x'' = 3 / 2 \<and>
   popularity_by_items (rated_engine
      [(''u1'', ''x'', 5), (''u2'', ''x'', 4), (''u3'', ''x'', 3), (''u3'', ''y'', 1)]) ''x'' = 1"
  by (simp add: calculatePopularityScore_def popularity_by_items_def rating_count_def
      NewHybridFilteringEngine_def rated_engine_def AddUserRating_def
      NewCollaborativeFilteringEngine_def row_def has_key_def)


lemmas collaborative_eval = UserBasedRecommend_def findSimilarUsers_def similar_candidates_def
    sort_Slice_def truncate_to_def ranked_def accumulate_def row_def CalculateUserSimilarity_def
    NewCollaborativeFilteringEngine_def common_keys_def has_key_def pearsonCorrelation_def
    lookup0_def Let_def sqrt_100

lemma single_rating_engine:
  "rated_engine [(''u'', ''b'', 4)] =
     NewCollaborativeFilteringEngine
       \<lparr>userItemMatrix := [(''u'', [(''b'', 4)])], itemUserMatrix := [(''b'', [(''u'', 4)])]\<rparr>"
  by (simp add: rated_engine_def AddUserRating_def row_def NewCollaborativeFilteringEngine_def)

lemma single_rating_no_neighbours:
  "0 \<le> n \<Longrightarrow> UserBasedRecommend (rated_engine [(''u'', ''b'', 4)]) ''u'' n = Inr []"
  unfolding single_rating_engine by (simp add: collaborative_eval)

text \<open>
  C5, as claimed: no item that the user rated appears in the user's content-based or
  hybrid recommendations. Here the user rated \<open>b\<close> through the collaborative engine only.
\<close>

theorem rated_item_recommended_by_content:
  "has_key (row (userItemMatrix (rated_engine [(''u'', ''b'', 4)])) ''u'') ''b'' \<and>
   ''b'' \<in> items_of (ContentBased_GenerateRecommendations content_example ''u'' 5) \<and>
   ids_scores (Hybrid_GenerateRecommendations
      (NewHybridFilteringEngine (rated_engine [(''u'', ''b'', 4)]) content_example) ''u'' 5)
     = [(''a'', 7 / 25), (''b'', 541 / 2000), (''c'', 13 / 50)]"
proof -
  let ?c = "rated_engine [(''u'', ''b'', 4)]"
  let ?h = "NewHybridFilteringEngine ?c content_example"
  define ra where "ra = \<lparr>ItemID_hyb = ''a'', Score_hyb = 7 / 25, CollaborativeScore = 0,
      ContentBasedScore = 7 / 10, DiversityScore = 0, PopularityScore = 0, RecencyScore = 0,
      Confidence = 7 / 10, Reason = [SimilarContent]\<rparr>"
  define rb where "rb = \<lparr>ItemID_hyb = ''b'', Score_hyb = 541 / 2000, CollaborativeScore = 0,
      ContentBasedScore = 11 / 20, DiversityScore = 0, PopularityScore = 1, RecencyScore = 1 / 100,
      Confidence = 7 / 10, Reason = [SimilarContent, Trending]\<rparr>"
  define rc where "rc = \<lparr>ItemID_hyb = ''c'', Score_hyb = 13 / 50, CollaborativeScore = 0,
      ContentBasedScore = 2 / 5, DiversityScore = 1, PopularityScore = 0, RecencyScore = 0,
      Confidence = 7 / 10, Reason = [NewCategory]\<rparr>"
  have sel: "ItemID_hyb ra = ''a''" "ItemID_hyb rb = ''b''" "ItemID_hyb rc = ''c''"
    "DiversityScore ra = 0" "DiversityScore rb = 0" "DiversityScore rc = 1"
    "Score_hyb ra = 7 / 25" "Score_hyb rb = 541 / 2000" "Score_hyb rc = 13 / 50"
    by (simp_all add: ra_def rb_def rc_def)
  have feats: "itemFeatures (contentBased ?h) =
       [(''a'', \<lparr>ItemID_feat = ''a'', Category_feat = ''books'', Keywords = [''novel''], Features = []\<rparr>),
        (''b'', \<lparr>ItemID_feat = ''b'', Category_feat = ''books'', Keywords = [''poetry''], Features = []\<rparr>),
        (''c'', \<lparr>ItemID_feat = ''c'', Category_feat = ''music'', Keywords = [], Features = []\<rparr>)]"
    unfolding content_example_state by (simp add: NewHybridFilteringEngine_def)
  have engines: "collaborative ?h = ?c" "contentBased ?h = content_example"
    "EnableDiversity (hyb_config ?h)"
    by (simp_all add: NewHybridFilteringEngine_def)
  have rated: "has_key (row (userItemMatrix ?c) ''u'') ''b''"
    unfolding single_rating_engine by (simp add: has_key_def row_def)
  have cs: "UserBasedRecommend ?c ''u'' (5 * 2) = Inr []"
    by (rule single_rating_no_neighbours) simp
  have bs: "ContentBased_GenerateRecommendations content_example ''u'' (5 * 2) =
     Inr [\<lparr>ItemID_rec = ''a'', Score_rec = 7 / 10\<rparr>, \<lparr>ItemID_rec = ''b'', Score_rec = 11 / 20\<rparr>,
          \<lparr>ItemID_rec = ''c'', Score_rec = 2 / 5\<rparr>]"
    unfolding content_example_recommendations by (simp add: truncate_to_def)
  have bs5: "ContentBased_GenerateRecommendations content_example ''u'' 5 =
     Inr [\<lparr>ItemID_rec = ''a'', Score_rec = 7 / 10\<rparr>, \<lparr>ItemID_rec = ''b'', Score_rec = 11 / 20\<rparr>,
          \<lparr>ItemID_rec = ''c'', Score_rec = 2 / 5\<rparr>]"
    unfolding content_example_recommendations by (simp add: truncate_to_def)
  have scores: "calculateHybridScores ?h ''u'' (mergeRecommendations []
         [\<lparr>ItemID_rec = ''a'', Score_rec = 7 / 10\<rparr>, \<lparr>ItemID_rec = ''b'', Score_rec = 11 / 20\<rparr>,
          \<lparr>ItemID_rec = ''c'', Score_rec = 2 / 5\<rparr>]) = [ra, rb, rc]"
    unfolding content_example_state single_rating_engine ra_def rb_def rc_def
    by (simp add: score_eval NewCollaborativeFilteringEngine_def)
  have greedy: "applyDiversityOptimization ?h [ra, rb, rc] = [ra, rc, rb]"
    unfolding applyDiversityOptimization_def feats
    by (simp add: sel diversity_step_def best_candidate_def select_category_def upt_conv_Cons Let_def)
  have sort1: "sort_Slice (\<lambda>a b. Score_hyb a > Score_hyb b) [ra, rc, rb] = [ra, rb, rc]"
    by (simp add: sort_Slice_def sel)
  have code: "Hybrid_GenerateRecommendations ?h ''u'' 5 = Inr [ra, rb, rc]"
    unfolding Hybrid_GenerateRecommendations_def engines(1,2) cs bs sum.case Let_def scores
    by (simp add: engines(3) greedy sort1 truncate_to_def)
  show ?thesis
    unfolding code bs5 using rated by (simp add: items_of_def ids_scores_def sel)
qed

lemma neighbour_recommendation:
  "UserBasedRecommend (neighbours_engine [(''v'', ''x'', 5)]) ''u'' 10
     = Inr [\<lparr>ItemID_rec = ''x'', Score_rec = 1 / 2\<rparr>]"
proof -
  have m: "userItemMatrix (neighbours_engine [(''v'', ''x'', 5)]) =
      [(''u'', [(''a'', 1), (''b'', 2), (''c'', 3), (''d'', 4), (''e'', 5)]),
       (''v'', [(''a'', 1), (''b'', 2), (''c'', 3), (''d'', 4), (''e'', 5), (''x'', 5)])]"
    by (simp add: neighbours_engine_def rated_engine_def AddUserRating_def
        NewCollaborativeFilteringEngine_def row_def)
  have cfg: "cf_config (neighbours_engine [(''v'', ''x'', 5)]) = cf_config NewCollaborativeFilteringEngine"
    unfolding neighbours_engine_def by (rule cf_config_rated_engine)
  show ?thesis
    by (simp add: collaborative_eval m cfg)
qed

text \<open>The amended C5 at a run where the collaborative recommender returns an item.\<close>

theorem own_history_excluded_witness:
  "has_key (row (userItemMatrix (neighbours_engine [(''v'', ''x'', 5)])) ''u'') ''a'' \<and>
   has_key (row (userItemHistory (AddUserBehavior content_example 0 0 ''u'' ''a'' 5)) ''u'') ''a'' \<and>
   UserBasedRecommend (neighbours_engine [(''v'', ''x'', 5)]) ''u'' 10
     = Inr [\<lparr>ItemID_rec = ''x'', Score_rec = 1 / 2\<rparr>] \<and>
   ''a'' \<notin> items_of (UserBasedRecommend (neighbours_engine [(''v'', ''x'', 5)]) ''u'' 10) \<and>
   ''a'' \<notin> items_of (ItemBasedRecommend (neighbours_engine [(''v'', ''x'', 5)]) ''u'' 10) \<and>
   ''a'' \<notin> items_of (ContentBased_GenerateRecommendations
       (AddUserBehavior content_example 0 0 ''u'' ''a'' 5) ''u'' 10) \<and>
   ''a'' \<notin> hybrid_items_of (Hybrid_GenerateRecommendations
       (NewHybridFilteringEngine (neighbours_engine [(''v'', ''x'', 5)])
          (AddUserBehavior content_example 0 0 ''u'' ''a'' 5)) ''u'' 10)"
proof -
  let ?c = "neighbours_engine [(''v'', ''x'', 5)]"
  let ?e = "AddUserBehavior content_example 0 0 ''u'' ''a'' 5"
  let ?h = "NewHybridFilteringEngine ?c ?e"
  have m: "userItemMatrix ?c =
      [(''u'', [(''a'', 1), (''b'', 2), (''c'', 3), (''d'', 4), (''e'', 5)]),
       (''v'', [(''a'', 1), (''b'', 2), (''c'', 3), (''d'', 4), (''e'', 5), (''x'', 5)])]"
    by (simp add: neighbours_engine_def rated_engine_def AddUserRating_def
        NewCollaborativeFilteringEngine_def row_def)
  have k1: "has_key (row (userItemMatrix ?c) ''u'') ''a''"
    unfolding m by (simp add: has_key_def row_def)
  have k2: "has_key (row (userItemHistory ?e) ''u'') ''a''"
    by (rule AddUserBehavior_recorded)
  have engines: "collaborative ?h = ?c" "contentBased ?h = ?e"
    by (simp_all add: NewHybridFilteringEngine_def)
  show ?thesis
    using own_history_excluded [of ?c "''u''" "''a''" 10 ?e ?h 5 0 0]
      k1 k2 neighbour_recommendation
    unfolding engines by blast
qed

lemma keen_example_run:
  "Hybrid_GenerateRecommendations
     (NewHybridFilteringEngine NewCollaborativeFilteringEngine keen_example) ''u'' 5
   = Inr [\<lparr>ItemID_hyb = ''item_001'', Score_hyb = 69 / 40, CollaborativeScore = 0,
           ContentBasedScore = 4, DiversityScore = 1, PopularityScore = 1 / 2, RecencyScore = 0,
           Confidence = 3 / 10, Reason = [SimilarContent, NewCategory]\<rparr>]"
proof -
  let ?h = "NewHybridFilteringEngine NewCollaborativeFilteringEngine keen_example"
  have engines: "collaborative ?h = NewCollaborativeFilteringEngine" "contentBased ?h = keen_example"
    by (simp_all add: NewHybridFilteringEngine_def)
  have cs: "UserBasedRecommend NewCollaborativeFilteringEngine ''u'' (5 * 2) = Inr []"
    by (rule new_user_no_collaborative) simp
  have bs: "ContentBased_GenerateRecommendations keen_example ''u'' (5 * 2)
      = Inr [\<lparr>ItemID_rec = ''item_001'', Score_rec = 4\<rparr>]"
    by (simp add: keen_example_def content_eval truncate_to_def)
  have scores: "calculateHybridScores ?h ''u''
      (mergeRecommendations [] [\<lparr>ItemID_rec = ''item_001'', Score_rec = 4\<rparr>])
      = [\<lparr>ItemID_hyb = ''item_001'', Score_hyb = 69 / 40, CollaborativeScore = 0,
           ContentBasedScore = 4, DiversityScore = 1, PopularityScore = 1 / 2, RecencyScore = 0,
           Confidence = 3 / 10, Reason = [SimilarContent, NewCategory]\<rparr>]"
    by (simp add: keen_example_def content_eval score_eval NewCollaborativeFilteringEngine_def)
  show ?thesis
    unfolding Hybrid_GenerateRecommendations_def engines cs bs sum.case Let_def scores
    by (simp add: applyDiversityOptimization_def sort_Slice_def truncate_to_def)
qed

text \<open>
  C6, as claimed: the content-based and the collaborative score of a hybrid
  recommendation lie in [0, 1]. A preference weight of 20 gives the content-based score 4;
  three neighbours of similarity 1 / 10 who rated an item 5 give the collaborative score
  3 / 2.
\<close>

theorem component_scores_exceed_one:
  "(case Hybrid_GenerateRecommendations
       (NewHybridFilteringEngine NewCollaborativeFilteringEngine keen_example) ''u'' 5 of
      Inr [r] \<Rightarrow> ContentBasedScore r = 4
    | _ \<Rightarrow> False) \<and>
   UserBasedRecommend (neighbours_engine crowd_extra) ''u'' 10
     = Inr [\<lparr>ItemID_rec = ''x'', Score_rec = 3 / 2\<rparr>]"
proof -
  have "UserBasedRecommend (neighbours_engine crowd_extra) ''u'' 10
     = Inr [\<lparr>ItemID_rec = ''x'', Score_rec = 3 / 2\<rparr>]"
    by (simp add: crowd_extra_def neighbours_engine_def rated_engine_def AddUserRating_def
        collaborative_eval)
  then show ?thesis
    unfolding keen_example_run by simp
qed

text \<open>The amended C6 at a run whose final score, 69 / 40, exceeds 1.\<close>

theorem hybrid_score_bounds_witness:
  "Hybrid_GenerateRecommendations
     (NewHybridFilteringEngine NewCollaborativeFilteringEngine keen_example) ''u'' 5
   = Inr [\<lparr>ItemID_hyb = ''item_001'', Score_hyb = 69 / 40, CollaborativeScore = 0,
           ContentBasedScore = 4, DiversityScore = 1, PopularityScore = 1 / 2, RecencyScore = 0,
           Confidence = 3 / 10, Reason = [SimilarContent, NewCategory]\<rparr>] \<and>
   (69 / 40 :: real) = 0.4 * 0 + 0.4 * 4 + 0.1 * 1 + 0.05 * (1 / 2) + 0.05 * 0 \<and>
   (1 :: real) < 69 / 40 \<and>
   SimilarityThreshold_cb (cb_config keen_example) \<le> 4 \<and>
   nonneg_matrix (userItemMatrix NewCollaborativeFilteringEngine)"
proof -
  let ?h = "NewHybridFilteringEngine NewCollaborativeFilteringEngine keen_example"
  let ?r = "\<lparr>ItemID_hyb = ''item_001'', Score_hyb = 69 / 40, CollaborativeScore = 0,
           ContentBasedScore = 4, DiversityScore = 1, PopularityScore = 1 / 2, RecencyScore = 0,
           Confidence = 3 / 10, Reason = [SimilarContent, NewCategory]\<rparr>"
  have mem: "?r \<in> set [?r]"
    by simp
  have nn: "nonneg_matrix (userItemMatrix NewCollaborativeFilteringEngine)"
    by (simp add: nonneg_matrix_def NewCollaborativeFilteringEngine_def)
  show ?thesis
    using hybrid_score_bounds [OF keen_example_run mem] keen_example_run nn
    by (simp add: NewHybridFilteringEngine_def)
qed



end
